theory Spec2Isabelle
  imports Main
begin

section \<open>Data model\<close>

text \<open>
  The controller \<^verbatim>\<open>src/controllers/postController.js\<close> works on four Mongoose models
  (Article, Journal, Reviewer, Auth). Their schema files are not part of the sources; the
  records below carry the fields the controller reads and writes, and, for the two embedded
  sequences of an article (authors and reviewers), the fields the specification lists.
  An ObjectId is a natural number.
\<close>

type_synonym oid = nat

text \<open>Modelled from the spec: the schema of an entry of \<^verbatim>\<open>article.authors\<close> (name, email,
  affiliation); the controller itself only reads \<^verbatim>\<open>authors.email\<close>.\<close>

record author =
  au_name :: string
  au_email :: string
  au_affiliation :: string

text \<open>Modelled from the spec: the schema of an entry of \<^verbatim>\<open>article.reviewers\<close> (name, email,
  review state, comments); the controller itself only reads \<^verbatim>\<open>reviewer.email\<close>.\<close>

record review =
  rv_name :: string
  rv_email :: string
  rv_state :: string
  rv_comments :: string

record article =
  a_id :: oid
  a_userId :: oid
  a_title :: string
  a_abstract :: string
  a_keywords :: "string list"
  a_file :: string
  a_authors :: "author list"
  a_journalId :: oid
  a_reviewers :: "review list"
  a_createdAt :: nat

record journal =
  j_id :: oid
  j_title :: string
  j_description :: string
  j_editorId :: "oid option"

record reviewer =
  r_id :: oid
  r_firstName :: string
  r_lastName :: string
  r_email :: string
  r_affiliation :: string

record auth =
  u_id :: oid
  u_firstName :: string
  u_middleName :: string
  u_lastName :: string
  u_userName :: string
  u_email :: string
  u_phoneNumber :: string
  u_password :: string
  u_gender :: string
  u_isEditor :: bool
  u_isReviewer :: bool

section \<open>Errors, responses and the world\<close>

text \<open>What a rejected promise or a thrown exception carries.\<close>

datatype error = DbError | TypeError | SyntaxError | IOError | TransportError

text \<open>The projections some handlers send instead of whole documents.\<close>

record editor_view =
  ev_id :: oid
  ev_firstName :: string
  ev_lastName :: string
  ev_email :: string

record journal_view =
  jv_id :: oid
  jv_title :: string
  jv_description :: string
  jv_editor :: "editor_view option"
  jv_editorId :: "oid option"

record review_article =
  ra_id :: oid
  ra_title :: string
  ra_createdAt :: nat
  ra_file :: string
  ra_reviewers :: "review list"

datatype payload =
    Articles "article list"
  | ArticleDoc article
  | JournalDoc journal
  | JournalList "journal_view list"
  | ReviewerDoc reviewer
  | ReviewerList "reviewer list"
  | ReviewArticles "review_article list"
  | MailInfo string
  | Credentials string string

datatype jvalue = JBool bool | JString string | JData payload | JError error | JNull

text \<open>\<^verbatim>\<open>res.status(c).json({k1: v1, ...})\<close>: the status code and the object's keys with
  their values, in the order of the object literal.\<close>

record response =
  status :: nat
  body :: "(string \<times> jvalue) list"

text \<open>A handler either sends a response, or an exception (a rejected promise) leaves it
  and no response is sent.\<close>

datatype outcome = Responded response | Uncaught error

text \<open>What \<^verbatim>\<open>transporter.sendMail\<close> will do: resolve to an info object, resolve to a
  falsy value, or reject.\<close>

datatype mail_outcome = MailSent string | MailNoInfo | MailRejected error

text \<open>
  The world a handler runs in: the four collections, the next fresh ObjectId, the clock,
  the upload and zip directories, the mail transport, and the availability of the database:
  \<open>db_fail_after = None\<close> when the database answers every call, \<open>Some k\<close> when it answers
  \<open>k\<close> more calls and rejects every later one. \<open>zip_dir\<close> says whether the staging
  directory \<^verbatim>\<open>public/journals/zip\<close> can be written to, \<open>zips\<close> holds the archives in it
  and \<open>timers\<close> the deletions scheduled with \<^verbatim>\<open>setTimeout\<close>.
\<close>

record world =
  Article :: "article list"
  Journal :: "journal list"
  Reviewer :: "reviewer list"
  Auth :: "auth list"
  fresh :: oid
  now :: nat
  db_fail_after :: "nat option"
  mail :: mail_outcome
  uploads :: "(string \<times> string) list"
  zip_dir :: bool
  zips :: "(string \<times> (string \<times> string) list) list"
  timers :: "(nat \<times> string) list"

section \<open>Awaited actions\<close>

type_synonym 'a action = "world \<Rightarrow> (error + 'a) \<times> world"

definition resolve :: "'a \<Rightarrow> 'a action" where
  "resolve x w = (Inr x, w)"

definition throw :: "error \<Rightarrow> 'a action" where
  "throw e w = (Inl e, w)"

text \<open>\<^verbatim>\<open>const x = await m; ...\<close>: a rejection of \<open>m\<close> skips the rest.\<close>

definition await :: "'a action \<Rightarrow> ('a \<Rightarrow> 'b action) \<Rightarrow> 'b action" where
  "await m f w = (case m w of (Inl e, w') \<Rightarrow> (Inl e, w') | (Inr x, w') \<Rightarrow> f x w')"

text \<open>\<^verbatim>\<open>try { ... res.status(..).json(..) } catch (error) { res.status(..).json(..) }\<close>\<close>

definition try_catch :: "response action \<Rightarrow> (error \<Rightarrow> response) \<Rightarrow> world \<Rightarrow> outcome \<times> world" where
  "try_catch block handler w =
     (case block w of
        (Inl e, w') \<Rightarrow> (Responded (handler e), w')
      | (Inr r, w') \<Rightarrow> (Responded r, w'))"

text \<open>One round trip to the database.\<close>

definition db_tick :: "world \<Rightarrow> world option" where
  "db_tick w =
     (case db_fail_after w of
        None \<Rightarrow> Some w
      | Some 0 \<Rightarrow> None
      | Some (Suc k) \<Rightarrow> Some (w\<lparr>db_fail_after := Some k\<rparr>))"

definition query :: "(world \<Rightarrow> 'a \<times> world) \<Rightarrow> 'a action" where
  "query f w =
     (case db_tick w of
        None \<Rightarrow> (Inl DbError, w)
      | Some w' \<Rightarrow> (case f w' of (x, w'') \<Rightarrow> (Inr x, w'')))"

section \<open>Collection operations\<close>

text \<open>\<^verbatim>\<open>findOneAndDelete\<close> removes the first matching document.\<close>

fun delete_first :: "('a \<Rightarrow> bool) \<Rightarrow> 'a list \<Rightarrow> 'a list" where
  "delete_first p [] = []"
| "delete_first p (x # xs) = (if p x then xs else x # delete_first p xs)"

text \<open>\<^verbatim>\<open>findOneAndUpdate\<close> changes the first matching document.\<close>

fun update_first :: "('a \<Rightarrow> bool) \<Rightarrow> ('a \<Rightarrow> 'a) \<Rightarrow> 'a list \<Rightarrow> 'a list" where
  "update_first p f [] = []"
| "update_first p f (x # xs) = (if p x then f x # xs else x # update_first p f xs)"

text \<open>A query by \<^verbatim>\<open>_id\<close> whose argument is \<^verbatim>\<open>null\<close> or \<^verbatim>\<open>undefined\<close> (\<open>None\<close>)
  matches no document: no document has a null \<^verbatim>\<open>_id\<close>.\<close>

definition id_is :: "('a \<Rightarrow> oid) \<Rightarrow> oid option \<Rightarrow> 'a \<Rightarrow> bool" where
  "id_is key i d = (case i of None \<Rightarrow> False | Some k \<Rightarrow> key d = k)"

definition Article_find :: "(article \<Rightarrow> bool) \<Rightarrow> article list action" where
  "Article_find p = query (\<lambda>w. (filter p (Article w), w))"

definition Article_findById :: "oid option \<Rightarrow> article option action" where
  "Article_findById i = query (\<lambda>w. (find (id_is a_id i) (Article w), w))"

text \<open>\<^verbatim>\<open>new Article({...}).save()\<close>: the document gets a fresh \<^verbatim>\<open>_id\<close> and its
  creation time.\<close>

definition Article_create :: "(oid \<Rightarrow> nat \<Rightarrow> article) \<Rightarrow> article action" where
  "Article_create mk =
     query (\<lambda>w. let d = mk (fresh w) (now w)
                in (d, w\<lparr>Article := Article w @ [d], fresh := Suc (fresh w)\<rparr>))"

text \<open>\<^verbatim>\<open>article.save()\<close> on a document that was read from the collection.\<close>

definition Article_save :: "article \<Rightarrow> unit action" where
  "Article_save d =
     query (\<lambda>w. ((), w\<lparr>Article := update_first (\<lambda>a. a_id a = a_id d) (\<lambda>_. d) (Article w)\<rparr>))"

text \<open>\<^verbatim>\<open>findByIdAndUpdate(id, update, { new: true })\<close> resolves to the updated document.\<close>

definition Article_findByIdAndUpdate :: "oid option \<Rightarrow> (article \<Rightarrow> article) \<Rightarrow> article option action" where
  "Article_findByIdAndUpdate i f =
     query (\<lambda>w. (map_option f (find (id_is a_id i) (Article w)),
                 w\<lparr>Article := update_first (id_is a_id i) f (Article w)\<rparr>))"

definition Journal_create :: "(oid \<Rightarrow> journal) \<Rightarrow> journal action" where
  "Journal_create mk =
     query (\<lambda>w. let d = mk (fresh w)
                in (d, w\<lparr>Journal := Journal w @ [d], fresh := Suc (fresh w)\<rparr>))"

definition Journal_findById :: "oid option \<Rightarrow> journal option action" where
  "Journal_findById i = query (\<lambda>w. (find (id_is j_id i) (Journal w), w))"

definition Journal_findByIdAndDelete :: "oid option \<Rightarrow> journal option action" where
  "Journal_findByIdAndDelete i =
     query (\<lambda>w. (find (id_is j_id i) (Journal w),
                 w\<lparr>Journal := delete_first (id_is j_id i) (Journal w)\<rparr>))"

definition Journal_findByIdAndUpdate :: "oid option \<Rightarrow> (journal \<Rightarrow> journal) \<Rightarrow> journal option action" where
  "Journal_findByIdAndUpdate i f =
     query (\<lambda>w. (map_option f (find (id_is j_id i) (Journal w)),
                 w\<lparr>Journal := update_first (id_is j_id i) f (Journal w)\<rparr>))"

text \<open>\<^verbatim>\<open>Journal.find().populate('editorId', 'firstName lastName email')\<close>: every journal
  with the selected fields of the Auth document its \<^verbatim>\<open>editorId\<close> names, or \<^verbatim>\<open>null\<close>
  when there is none. The second query, for the Auth documents, is sent only when some
  journal has an \<^verbatim>\<open>editorId\<close>.\<close>

definition populate_editor :: "auth list \<Rightarrow> journal \<Rightarrow> journal \<times> editor_view option" where
  "populate_editor us j =
     (j, map_option
           (\<lambda>a. \<lparr>ev_id = u_id a, ev_firstName = u_firstName a, ev_lastName = u_lastName a,
                  ev_email = u_email a\<rparr>)
           (find (id_is u_id (j_editorId j)) us))"

definition Journal_find_populate :: "(journal \<times> editor_view option) list action" where
  "Journal_find_populate =
     await (query (\<lambda>w. (Journal w, w))) (\<lambda>js.
     if list_all (\<lambda>j. j_editorId j = None) js
     then resolve (map (\<lambda>j. (j, None)) js)
     else query (\<lambda>w. (map (populate_editor (Auth w)) js, w)))"

definition Reviewer_findOne :: "(reviewer \<Rightarrow> bool) \<Rightarrow> reviewer option action" where
  "Reviewer_findOne p = query (\<lambda>w. (find p (Reviewer w), w))"

definition Reviewer_find :: "reviewer list action" where
  "Reviewer_find = query (\<lambda>w. (Reviewer w, w))"

definition Reviewer_create :: "(oid \<Rightarrow> reviewer) \<Rightarrow> reviewer action" where
  "Reviewer_create mk =
     query (\<lambda>w. let d = mk (fresh w)
                in (d, w\<lparr>Reviewer := Reviewer w @ [d], fresh := Suc (fresh w)\<rparr>))"

text \<open>\<^verbatim>\<open>insertMany\<close> of an empty array resolves to an empty array without a round trip
  to the database.\<close>

definition Reviewer_insertMany :: "(oid \<Rightarrow> reviewer) list \<Rightarrow> reviewer list action" where
  "Reviewer_insertMany mks =
     (if mks = [] then resolve []
      else query (\<lambda>w. let ds = map (\<lambda>(k, mk). mk (fresh w + k)) (enumerate 0 mks)
                      in (ds, w\<lparr>Reviewer := Reviewer w @ ds, fresh := fresh w + length mks\<rparr>)))"

definition Reviewer_findByIdAndDelete :: "oid option \<Rightarrow> reviewer option action" where
  "Reviewer_findByIdAndDelete i =
     query (\<lambda>w. (find (id_is r_id i) (Reviewer w),
                 w\<lparr>Reviewer := delete_first (id_is r_id i) (Reviewer w)\<rparr>))"

definition Auth_findOne :: "(auth \<Rightarrow> bool) \<Rightarrow> auth option action" where
  "Auth_findOne p = query (\<lambda>w. (find p (Auth w), w))"

definition Auth_create :: "auth \<Rightarrow> unit action" where
  "Auth_create d = query (\<lambda>w. ((), w\<lparr>Auth := Auth w @ [d]\<rparr>))"

definition Auth_findByIdAndDelete :: "oid option \<Rightarrow> auth option action" where
  "Auth_findByIdAndDelete i =
     query (\<lambda>w. (find (id_is u_id i) (Auth w),
                 w\<lparr>Auth := delete_first (id_is u_id i) (Auth w)\<rparr>))"

definition Auth_findOneAndUpdate :: "(auth \<Rightarrow> bool) \<Rightarrow> (auth \<Rightarrow> auth) \<Rightarrow> auth option action" where
  "Auth_findOneAndUpdate p f =
     query (\<lambda>w. (map_option f (find p (Auth w)), w\<lparr>Auth := update_first p f (Auth w)\<rparr>))"

section \<open>Responses\<close>

definition json :: "nat \<Rightarrow> (string \<times> jvalue) list \<Rightarrow> response" where
  "json c obj = \<lparr>status = c, body = obj\<rparr>"

definition failure :: "nat \<Rightarrow> string \<Rightarrow> response" where
  "failure c m = json c [(''success'', JBool False), (''message'', JString m)]"

definition failure_error :: "nat \<Rightarrow> string \<Rightarrow> error \<Rightarrow> response" where
  "failure_error c m e =
     json c [(''success'', JBool False), (''message'', JString m), (''error'', JError e)]"

definition success :: "nat \<Rightarrow> string \<Rightarrow> response" where
  "success c m = json c [(''success'', JBool True), (''message'', JString m)]"

definition success_data :: "nat \<Rightarrow> string \<Rightarrow> payload \<Rightarrow> response" where
  "success_data c m d =
     json c [(''success'', JBool True), (''message'', JString m), (''data'', JData d)]"

section \<open>getArticle\<close>

text \<open>\<^verbatim>\<open>req.user\<close>, set by the authentication middleware.\<close>

record user =
  user_id :: oid
  user_email :: string

definition getArticle :: "user \<Rightarrow> world \<Rightarrow> outcome \<times> world" where
  "getArticle u =
     try_catch
       (await (Article_find (\<lambda>a. a_userId a = user_id u)) (\<lambda>articles.
        await (Article_find (\<lambda>a. list_ex (\<lambda>x. au_email x = user_email u) (a_authors a))) (\<lambda>otherArticles.
        if length articles = 0 \<and> length otherArticles = 0
        then resolve (failure 404 ''You didn't submit any journal article'')
        else resolve (success_data 200 ''Journal Articles data retrieved successfully''
               (Articles (articles @
                  filter (\<lambda>item2. \<not> list_ex (\<lambda>item1. a_id item1 = a_id item2) articles)
                    otherArticles))))))
       (failure_error 404 ''Journal Articles data retrieval failed'')"


section \<open>Strings and array indices\<close>

text \<open>
  A string is a sequence of code units below 256, the Latin-1 range of Unicode: the ASCII
  characters and the code points U+0080 to U+00FF.
  \<^verbatim>\<open>String.prototype.toLowerCase\<close> maps the letters A to Z and the letters U+00C0 to U+00DE
  (all but the multiplication sign U+00D7) to the code unit 32 above and leaves every
  other code unit of this range as it is.
\<close>

definition lower_letters :: string where
  "lower_letters = ''abcdefghijklmnopqrstuvwxyz''"

definition upper_letters :: string where
  "upper_letters = ''ABCDEFGHIJKLMNOPQRSTUVWXYZ''"

definition latin1_upper :: string where
  "latin1_upper = [
      CHR 0xC0, CHR 0xC1, CHR 0xC2, CHR 0xC3, CHR 0xC4, CHR 0xC5, CHR 0xC6, CHR 0xC7,
      CHR 0xC8, CHR 0xC9, CHR 0xCA, CHR 0xCB, CHR 0xCC, CHR 0xCD, CHR 0xCE, CHR 0xCF,
      CHR 0xD0, CHR 0xD1, CHR 0xD2, CHR 0xD3, CHR 0xD4, CHR 0xD5, CHR 0xD6, CHR 0xD8,
      CHR 0xD9, CHR 0xDA, CHR 0xDB, CHR 0xDC, CHR 0xDD, CHR 0xDE]"

definition latin1_lower :: string where
  "latin1_lower = [
      CHR 0xE0, CHR 0xE1, CHR 0xE2, CHR 0xE3, CHR 0xE4, CHR 0xE5, CHR 0xE6, CHR 0xE7,
      CHR 0xE8, CHR 0xE9, CHR 0xEA, CHR 0xEB, CHR 0xEC, CHR 0xED, CHR 0xEE, CHR 0xEF,
      CHR 0xF0, CHR 0xF1, CHR 0xF2, CHR 0xF3, CHR 0xF4, CHR 0xF5, CHR 0xF6, CHR 0xF8,
      CHR 0xF9, CHR 0xFA, CHR 0xFB, CHR 0xFC, CHR 0xFD, CHR 0xFE]"

definition toLowerCase :: "string \<Rightarrow> string" where
  "toLowerCase s =
     map (\<lambda>c. case map_of (zip (upper_letters @ latin1_upper) (lower_letters @ latin1_lower)) c of
               None \<Rightarrow> c
             | Some C \<Rightarrow> C) s"

text \<open>
  \<^verbatim>\<open>String.prototype.toUpperCase\<close> is the inverse mapping on those letters. Three code
  units of the range, U+00B5, U+00DF and U+00FF, have an uppercase form that is not a code
  unit below 256; the model leaves them as they are. The controller applies
  \<^verbatim>\<open>toUpperCase\<close> only to the base-36 rendering of a number, which consists of ASCII
  digits, ASCII lowercase letters and the dot.
\<close>

definition toUpperCase :: "string \<Rightarrow> string" where
  "toUpperCase s =
     map (\<lambda>c. case map_of (zip (lower_letters @ latin1_lower) (upper_letters @ latin1_upper)) c of
               None \<Rightarrow> c
             | Some C \<Rightarrow> C) s"

text \<open>\<^verbatim>\<open>s.slice(-n)\<close>: the last \<open>n\<close> characters, the whole string when it is shorter.\<close>

definition slice_last :: "nat \<Rightarrow> string \<Rightarrow> string" where
  "slice_last n s = drop (length s - n) s"

text \<open>The decimal rendering of a non-negative integer, as string concatenation and
  template literals produce it.\<close>

fun decimal :: "nat \<Rightarrow> string" where
  "decimal n =
     (if n < 10 then [''0123456789'' ! n]
      else decimal (n div 10) @ [''0123456789'' ! (n mod 10)])"

declare decimal.simps [simp del]

text \<open>\<^verbatim>\<open>Array.prototype.findIndex\<close>: the index of the first element satisfying the
  predicate, \<open>-1\<close> when there is none.\<close>

fun findIndex_from :: "int \<Rightarrow> ('a \<Rightarrow> bool) \<Rightarrow> 'a list \<Rightarrow> int" where
  "findIndex_from k p [] = - 1"
| "findIndex_from k p (x # xs) = (if p x then k else findIndex_from (k + 1) p xs)"

definition findIndex :: "('a \<Rightarrow> bool) \<Rightarrow> 'a list \<Rightarrow> int" where
  "findIndex p xs = findIndex_from 0 p xs"

text \<open>
  \<^verbatim>\<open>xs[i] = v\<close> for an index \<open>i\<close> below the length: an index inside the array replaces
  that element; a negative \<open>i\<close> is not an array index, the assignment creates the
  property \<^verbatim>\<open>"-1"\<close> on the array object and leaves its elements and its length alone.
  (\<open>findIndex\<close> never returns an index at or beyond the length.)
\<close>

definition assign_index :: "'a list \<Rightarrow> int \<Rightarrow> 'a \<Rightarrow> 'a list" where
  "assign_index xs i v = (if 0 \<le> i \<and> i < int (length xs) then xs[nat i := v] else xs)"

section \<open>The other handlers\<close>

text \<open>\<open>aa_keywords\<close> and \<open>aa_authors\<close> are the results of \<^verbatim>\<open>JSON.parse\<close> on the two
  body fields (\<open>None\<close> when it throws), \<open>aa_file\<close> is \<^verbatim>\<open>req.file.filename\<close> (\<open>None\<close>
  when no file was uploaded and \<^verbatim>\<open>req.file\<close> is undefined).\<close>

record addArticle_req =
  aa_userId :: oid
  aa_title :: string
  aa_abstract :: string
  aa_keywords :: "string list option"
  aa_file :: "string option"
  aa_authors :: "author list option"
  aa_journalId :: oid

definition addArticle :: "addArticle_req \<Rightarrow> world \<Rightarrow> outcome \<times> world" where
  "addArticle req =
     try_catch
       (case aa_keywords req of
          None \<Rightarrow> throw SyntaxError
        | Some keywords \<Rightarrow>
       (case aa_file req of
          None \<Rightarrow> throw TypeError
        | Some filename \<Rightarrow>
       (case aa_authors req of
          None \<Rightarrow> throw SyntaxError
        | Some authors \<Rightarrow>
            await (Article_create (\<lambda>i t.
                     \<lparr>a_id = i, a_userId = aa_userId req, a_title = aa_title req,
                      a_abstract = aa_abstract req, a_keywords = keywords, a_file = filename,
                      a_authors = authors, a_journalId = aa_journalId req, a_reviewers = [],
                      a_createdAt = t\<rparr>)) (\<lambda>responseData.
            resolve (success_data 201 ''Article submitted successfully'' (ArticleDoc responseData))))))
       (failure_error 404 ''Article submission failed'')"

record addJournal_req =
  aj_title :: string
  aj_description :: string

definition addJournal :: "addJournal_req \<Rightarrow> world \<Rightarrow> outcome \<times> world" where
  "addJournal req =
     try_catch
       (await (Journal_create (\<lambda>i.
                 \<lparr>j_id = i, j_title = aj_title req, j_description = aj_description req,
                  j_editorId = None\<rparr>)) (\<lambda>responseData.
        resolve (success_data 201 ''Journal added successfully'' (JournalDoc responseData))))
       (failure_error 404 ''Journal addition failed'')"

definition deleteJournal :: "oid \<Rightarrow> world \<Rightarrow> outcome \<times> world" where
  "deleteJournal journalId =
     try_catch
       (await (Journal_findByIdAndDelete (Some journalId)) (\<lambda>journalData.
        case journalData of
          None \<Rightarrow> resolve (failure 404 ''Journal not found'')
        | Some j \<Rightarrow>
            await (case j_editorId j of
                     None \<Rightarrow> resolve None
                   | Some e \<Rightarrow> Auth_findByIdAndDelete (Some e)) (\<lambda>_.
            resolve (success 200 ''Journal deleted successfully''))))
       (failure_error 404 ''Journal deletion failed'')"

definition journal_item :: "journal \<times> editor_view option \<Rightarrow> journal_view" where
  "journal_item je =
     (case je of (j, editor) \<Rightarrow>
        \<lparr>jv_id = j_id j, jv_title = j_title j, jv_description = j_description j,
         jv_editor = editor, jv_editorId = map_option ev_id editor\<rparr>)"

definition getJournalList :: "world \<Rightarrow> outcome \<times> world" where
  "getJournalList =
     try_catch
       (await Journal_find_populate (\<lambda>journalData.
        resolve (success_data 200 ''Journal data retrieved successfully''
                   (JournalList (map journal_item journalData)))))
       (failure_error 404 ''Journal data retrieval failed'')"

record mail_req =
  mailFrom :: string
  mailTo :: string
  mailSubject :: string
  mailHtml :: string

definition transporter_sendMail :: "mail_req \<Rightarrow> string option action" where
  "transporter_sendMail m w =
     (case mail w of
        MailSent info \<Rightarrow> (Inr (Some info), w)
      | MailNoInfo \<Rightarrow> (Inr None, w)
      | MailRejected e \<Rightarrow> (Inl e, w))"

definition sendMail :: "mail_req \<Rightarrow> world \<Rightarrow> outcome \<times> world" where
  "sendMail req =
     try_catch
       (await (transporter_sendMail req) (\<lambda>info.
        case info of
          Some i \<Rightarrow> resolve (success_data 200 ''Mail sent successfully'' (MailInfo i))
        | None \<Rightarrow> resolve (json 400 [(''success'', JBool False),
                     (''message'', JString ''Mail sending failed''), (''data'', JNull)])))
       (failure_error 400 ''Mail sending failed'')"

definition getArticleList :: "oid \<Rightarrow> world \<Rightarrow> outcome \<times> world" where
  "getArticleList journalId =
     try_catch
       (await (Article_find (\<lambda>a. a_journalId a = journalId)) (\<lambda>articles.
        if length articles = 0
        then resolve (failure 404 ''No journal articles found'')
        else resolve (success_data 200 ''Journal Articles data retrieved successfully''
                        (Articles articles))))
       (failure_error 404 ''Journal Articles data retrieval failed'')"

text \<open>\<^verbatim>\<open>req.body\<close> of updateArticle: the article's \<^verbatim>\<open>_id\<close> and the fields to set.\<close>

record article_patch =
  p_id :: "oid option"
  p_title :: "string option"
  p_abstract :: "string option"
  p_keywords :: "string list option"
  p_file :: "string option"
  p_authors :: "author list option"
  p_journalId :: "oid option"
  p_reviewers :: "review list option"

definition or_else :: "'a option \<Rightarrow> 'a \<Rightarrow> 'a" where
  "or_else x d = (case x of None \<Rightarrow> d | Some v \<Rightarrow> v)"

definition apply_patch :: "article_patch \<Rightarrow> article \<Rightarrow> article" where
  "apply_patch p a =
     a\<lparr>a_title := or_else (p_title p) (a_title a),
       a_abstract := or_else (p_abstract p) (a_abstract a),
       a_keywords := or_else (p_keywords p) (a_keywords a),
       a_file := or_else (p_file p) (a_file a),
       a_authors := or_else (p_authors p) (a_authors a),
       a_journalId := or_else (p_journalId p) (a_journalId a),
       a_reviewers := or_else (p_reviewers p) (a_reviewers a)\<rparr>"

definition updateArticle :: "article_patch \<Rightarrow> world \<Rightarrow> outcome \<times> world" where
  "updateArticle req =
     try_catch
       (await (Article_findByIdAndUpdate (p_id req) (apply_patch req)) (\<lambda>article.
        case article of
          None \<Rightarrow> resolve (failure 404 ''Journal article not found'')
        | Some a \<Rightarrow> resolve (success_data 200 ''Journal article updated successfully''
                               (ArticleDoc a))))
       (failure_error 404 ''Journal article update failed'')"

text \<open>\<^verbatim>\<open>req.body\<close> of updateReview: the article's \<^verbatim>\<open>_id\<close> and \<open>ur_patch\<close>, the entry
  \<^verbatim>\<open>req.body.reviewers[0]\<close>.\<close>

record updateReview_req =
  ur_id :: "oid option"
  ur_patch :: review

definition updateReview :: "user \<Rightarrow> updateReview_req \<Rightarrow> world \<Rightarrow> outcome \<times> world" where
  "updateReview u req =
     try_catch
       (await (Article_findById (ur_id req)) (\<lambda>found.
        case found of
          None \<Rightarrow> resolve (failure 404 ''Journal article not found'')
        | Some article \<Rightarrow>
            (let reviewerIndex = findIndex (\<lambda>reviewer. rv_email reviewer = user_email u)
                                   (a_reviewers article)
             in await (Article_save
                         (article\<lparr>a_reviewers :=
                            assign_index (a_reviewers article) reviewerIndex (ur_patch req)\<rparr>)) (\<lambda>_.
                resolve (success 200 ''Journal article updated successfully'')))))
       (failure_error 404 ''Journal article update failed'')"


record addReviewer_req =
  ar_firstName :: string
  ar_lastName :: string
  ar_email :: string
  ar_affiliation :: string

definition new_reviewer :: "addReviewer_req \<Rightarrow> oid \<Rightarrow> reviewer" where
  "new_reviewer req i =
     \<lparr>r_id = i, r_firstName = ar_firstName req, r_lastName = ar_lastName req,
      r_email = ar_email req, r_affiliation = ar_affiliation req\<rparr>"

text \<open>The first lookup of addReviewer is awaited before the \<^verbatim>\<open>try\<close> block is entered.\<close>

definition addReviewer :: "addReviewer_req \<Rightarrow> world \<Rightarrow> outcome \<times> world" where
  "addReviewer req w =
     (case Reviewer_findOne (\<lambda>r. r_email r = ar_email req) w of
        (Inl e, w') \<Rightarrow> (Uncaught e, w')
      | (Inr (Some reviewerData), w') \<Rightarrow> (Responded (failure 400 ''Reviewer already exists''), w')
      | (Inr None, w') \<Rightarrow>
          try_catch
            (await (Reviewer_create (new_reviewer req)) (\<lambda>responseData.
             await (Auth_findOneAndUpdate (\<lambda>a. u_email a = ar_email req)
                      (\<lambda>a. a\<lparr>u_isReviewer := True\<rparr>)) (\<lambda>_.
             resolve (success_data 201 ''Reviewer added successfully'' (ReviewerDoc responseData)))))
            (failure_error 404 ''Reviewer addition failed'') w')"

definition addBulkReviewer :: "addReviewer_req list \<Rightarrow> world \<Rightarrow> outcome \<times> world" where
  "addBulkReviewer reqs =
     try_catch
       (await (Reviewer_insertMany (map new_reviewer reqs)) (\<lambda>responseData.
        resolve (success_data 201 ''Reviewers added successfully'' (ReviewerList responseData))))
       (failure_error 404 ''Reviewers addition failed'')"

definition getReviewerList :: "world \<Rightarrow> outcome \<times> world" where
  "getReviewerList =
     try_catch
       (await Reviewer_find (\<lambda>reviewerData.
        resolve (success_data 200 ''Reviewer data retrieved successfully'' (ReviewerList reviewerData))))
       (failure_error 404 ''Reviewer data retrieval failed'')"

text \<open>\<^verbatim>\<open>{ ...article.toObject(), reviewers: article.reviewers.filter(...) }\<close> on a document
  selected with \<^verbatim>\<open>'title createdAt file reviewers'\<close>.\<close>

definition review_item :: "string \<Rightarrow> article \<Rightarrow> review_article" where
  "review_item email a =
     \<lparr>ra_id = a_id a, ra_title = a_title a, ra_createdAt = a_createdAt a, ra_file = a_file a,
      ra_reviewers = filter (\<lambda>reviewer. rv_email reviewer = email) (a_reviewers a)\<rparr>"

definition getReviewArticles :: "user \<Rightarrow> world \<Rightarrow> outcome \<times> world" where
  "getReviewArticles u =
     try_catch
       (await (Article_find (\<lambda>a. list_ex (\<lambda>x. rv_email x = user_email u) (a_reviewers a))) (\<lambda>articles.
        if length articles = 0
        then resolve (failure 404 ''No review articles found'')
        else resolve (success_data 200 ''Journal Articles data retrieved successfully''
                        (ReviewArticles (map (review_item (user_email u)) articles)))))
       (failure_error 404 ''Journal Articles data retrieval failed'')"

definition deleteReviewer :: "oid \<Rightarrow> world \<Rightarrow> outcome \<times> world" where
  "deleteReviewer reviewerId =
     try_catch
       (await (Reviewer_findByIdAndDelete (Some reviewerId)) (\<lambda>reviewerData.
        case reviewerData of
          None \<Rightarrow> resolve (failure 404 ''Reviewer not found'')
        | Some r \<Rightarrow>
            await (Auth_findOneAndUpdate (\<lambda>a. u_email a = r_email r)
                     (\<lambda>a. a\<lparr>u_isReviewer := False\<rparr>)) (\<lambda>_.
            resolve (success 200 ''Reviewer deleted successfully''))))
       (failure_error 404 ''Reviewer deletion failed'')"

text \<open>\<^verbatim>\<open>files.forEach(file => zip.file(file, fs.readFileSync(...)))\<close>: reading a file that
  is not in the upload directory throws.\<close>

fun read_files :: "(string \<times> string) list \<Rightarrow> string list \<Rightarrow> error + (string \<times> string) list" where
  "read_files dir [] = Inr []"
| "read_files dir (file # files) =
     (case map_of dir file of
        None \<Rightarrow> Inl IOError
      | Some content \<Rightarrow>
          (case read_files dir files of
             Inl e \<Rightarrow> Inl e
           | Inr entries \<Rightarrow> Inr ((file, content) # entries)))"

text \<open>
  Inside the \<^verbatim>\<open>try\<close> block the files are read, the archive is piped to a write stream
  named after the current time in milliseconds, and the deletion of that file is scheduled
  for 60 seconds later; a file that cannot be read is answered by the \<^verbatim>\<open>catch\<close> block.
  The success response is sent by the listener of the stream's \<^verbatim>\<open>finish\<close> event, after the
  handler has returned. When the staging directory cannot be written to, the stream emits
  \<^verbatim>\<open>error\<close> instead, which has no listener: the error is thrown outside the handler and
  no response is sent.
\<close>

definition createZip :: "string list \<Rightarrow> world \<Rightarrow> outcome \<times> world" where
  "createZip files w =
     (case read_files (uploads w) files of
        Inl e \<Rightarrow> (Responded (failure_error 404 ''Zip file creation failed'' e), w)
      | Inr entries \<Rightarrow>
          (let filename = decimal (now w);
               scheduled = w\<lparr>timers := timers w @ [(now w + 60000, filename @ ''.zip'')]\<rparr>
           in if zip_dir w
              then (Responded (json 200 [(''success'', JBool True),
                                 (''message'', JString ''Zip file created successfully''),
                                 (''filename'', JString (filename @ ''.zip''))]),
                    scheduled\<lparr>zips := (filename @ ''.zip'', entries) # zips w\<rparr>)
              else (Uncaught IOError, scheduled)))"

text \<open>The callback of \<^verbatim>\<open>setTimeout\<close>: \<^verbatim>\<open>fs.unlinkSync\<close> throws when the file is not
  there, and the callback runs outside every \<^verbatim>\<open>try\<close> block.\<close>

definition unlink_zip :: "string \<Rightarrow> world \<Rightarrow> error option \<times> world" where
  "unlink_zip name w =
     (case map_of (zips w) name of
        None \<Rightarrow> (Some IOError, w)
      | Some _ \<Rightarrow> (None, w\<lparr>zips := filter (\<lambda>z. fst z \<noteq> name) (zips w)\<rparr>))"

record addEditor_req =
  ae_firstName :: string
  ae_middleName :: string
  ae_lastName :: string
  ae_email :: string
  ae_phoneNumber :: string
  ae_gender :: string
  ae_journalId :: "oid option"

text \<open>The two calls of \<^verbatim>\<open>Math.random()\<close> in addEditor: \<open>rnd_base36\<close> is
  \<^verbatim>\<open>Math.random().toString(36)\<close> of the first, \<open>rnd_suffix\<close> is
  \<^verbatim>\<open>Math.floor(Math.random() * 1000)\<close> of the second.\<close>

record random_source =
  rnd_base36 :: string
  rnd_suffix :: nat

definition gen_password :: "random_source \<Rightarrow> string" where
  "gen_password rnd = slice_last 10 (toUpperCase (rnd_base36 rnd))"

definition gen_userName :: "string \<Rightarrow> random_source \<Rightarrow> string" where
  "gen_userName firstName rnd = toLowerCase firstName @ decimal (rnd_suffix rnd)"

text \<open>\<^verbatim>\<open>Auth({...})\<close> gives the new document its \<^verbatim>\<open>_id\<close> before it is saved.\<close>

definition new_oid :: "oid action" where
  "new_oid w = (Inr (fresh w), w\<lparr>fresh := Suc (fresh w)\<rparr>)"

definition new_editor :: "addEditor_req \<Rightarrow> random_source \<Rightarrow> oid \<Rightarrow> auth" where
  "new_editor req rnd i =
     \<lparr>u_id = i, u_firstName = ae_firstName req, u_middleName = ae_middleName req,
      u_lastName = ae_lastName req, u_userName = gen_userName (ae_firstName req) rnd,
      u_email = ae_email req, u_phoneNumber = ae_phoneNumber req,
      u_password = gen_password rnd, u_gender = ae_gender req, u_isEditor = True,
      u_isReviewer = False\<rparr>"

definition addEditor :: "addEditor_req \<Rightarrow> random_source \<Rightarrow> world \<Rightarrow> outcome \<times> world" where
  "addEditor req rnd =
     try_catch
       (await (Auth_findOne (\<lambda>a. u_email a = ae_email req)) (\<lambda>user.
        case user of
          Some _ \<Rightarrow> resolve (failure 400 ''Editor already exists'')
        | None \<Rightarrow>
        await (Auth_findOne (\<lambda>a. u_phoneNumber a = ae_phoneNumber req)) (\<lambda>userPhone.
        case userPhone of
          Some _ \<Rightarrow> resolve (failure 400 ''Phone number already exists'')
        | None \<Rightarrow>
        await new_oid (\<lambda>editor_id.
        await (Auth_create (new_editor req rnd editor_id)) (\<lambda>_.
        await (Journal_findByIdAndUpdate (ae_journalId req)
                 (\<lambda>j. j\<lparr>j_editorId := Some editor_id\<rparr>)) (\<lambda>_.
        resolve (success_data 201 ''Editor added successfully''
                   (Credentials (gen_password rnd) (gen_userName (ae_firstName req) rnd)))))))))
       (failure_error 404 ''Editor addition failed'')"

definition removeEditor :: "oid \<Rightarrow> world \<Rightarrow> outcome \<times> world" where
  "removeEditor journalId =
     try_catch
       (await (Journal_findById (Some journalId)) (\<lambda>journal.
        case journal of
          None \<Rightarrow> resolve (failure 404 ''Journal not found'')
        | Some j \<Rightarrow>
            await (Auth_findByIdAndDelete (j_editorId j)) (\<lambda>_.
            await (Journal_findByIdAndUpdate (Some journalId) (\<lambda>j. j\<lparr>j_editorId := None\<rparr>)) (\<lambda>_.
            resolve (success 200 ''Editor removed successfully'')))))
       (failure_error 404 ''Editor removal failed'')"

section \<open>All handlers\<close>

text \<open>The requests of \<^verbatim>\<open>module.exports\<close>, each with the inputs its handler reads.\<close>

datatype request =
    AddArticle addArticle_req
  | GetArticle user
  | SendMail mail_req
  | GetJournalList
  | AddJournal addJournal_req
  | DeleteJournal oid
  | GetArticleList oid
  | UpdateArticle article_patch
  | AddReviewer addReviewer_req
  | AddBulkReviewer "addReviewer_req list"
  | GetReviewerList
  | GetReviewArticles user
  | UpdateReview user updateReview_req
  | DeleteReviewer oid
  | CreateZip "string list"
  | AddEditor addEditor_req random_source
  | RemoveEditor oid

fun handle :: "request \<Rightarrow> world \<Rightarrow> outcome \<times> world" where
  "handle (AddArticle req) = addArticle req"
| "handle (GetArticle u) = getArticle u"
| "handle (SendMail req) = sendMail req"
| "handle GetJournalList = getJournalList"
| "handle (AddJournal req) = addJournal req"
| "handle (DeleteJournal i) = deleteJournal i"
| "handle (GetArticleList i) = getArticleList i"
| "handle (UpdateArticle req) = updateArticle req"
| "handle (AddReviewer req) = addReviewer req"
| "handle (AddBulkReviewer reqs) = addBulkReviewer reqs"
| "handle GetReviewerList = getReviewerList"
| "handle (GetReviewArticles u) = getReviewArticles u"
| "handle (UpdateReview u req) = updateReview u req"
| "handle (DeleteReviewer i) = deleteReviewer i"
| "handle (CreateZip files) = createZip files"
| "handle (AddEditor req rnd) = addEditor req rnd"
| "handle (RemoveEditor i) = removeEditor i"

section \<open>The response envelope\<close>

text \<open>
  The uniform envelope of the interface description: an object with a boolean
  \<^verbatim>\<open>success\<close>, a string \<^verbatim>\<open>message\<close>, optionally \<^verbatim>\<open>data\<close> and \<^verbatim>\<open>error\<close> and no
  other key, sent with status 200 or 201 on success and 400 or 404 on failure.
\<close>

definition uniform_envelope :: "response \<Rightarrow> bool" where
  "uniform_envelope r =
     (case (map_of (body r) ''success'', map_of (body r) ''message'') of
        (Some (JBool ok), Some (JString m)) \<Rightarrow>
           set (map fst (body r)) \<subseteq> {''success'', ''message'', ''data'', ''error''} \<and>
           (if ok then status r \<in> {200, 201} else status r \<in> {400, 404})
      | _ \<Rightarrow> False)"

text \<open>Every value a block resolves to satisfies \<open>P\<close>.\<close>

definition yields :: "'a action \<Rightarrow> ('a \<Rightarrow> bool) \<Rightarrow> bool" where
  "yields m P = (\<forall>w x w'. m w = (Inr x, w') \<longrightarrow> P x)"

section \<open>Example data\<close>

definition alice :: auth where
  "alice = \<lparr>u_id = 1, u_firstName = ''Alice'', u_middleName = ''A'', u_lastName = ''Ames'',
     u_userName = ''alice7'', u_email = ''a@x.com'', u_phoneNumber = ''111'',
     u_password = ''PW1'', u_gender = ''f'', u_isEditor = False, u_isReviewer = True\<rparr>"

definition bob :: auth where
  "bob = \<lparr>u_id = 2, u_firstName = ''Bob'', u_middleName = ''B'', u_lastName = ''Burns'',
     u_userName = ''bob12'', u_email = ''b@x.com'', u_phoneNumber = ''222'',
     u_password = ''PW2'', u_gender = ''m'', u_isEditor = True, u_isReviewer = False\<rparr>"

definition journal10 :: journal where
  "journal10 = \<lparr>j_id = 10, j_title = ''Logic'', j_description = ''Proofs'', j_editorId = Some 2\<rparr>"

definition journal11 :: journal where
  "journal11 = \<lparr>j_id = 11, j_title = ''Sets'', j_description = ''Models'', j_editorId = None\<rparr>"

definition review_a :: review where
  "review_a = \<lparr>rv_name = ''Alice'', rv_email = ''a@x.com'', rv_state = ''pending'',
     rv_comments = ''none''\<rparr>"

definition review_b :: review where
  "review_b = \<lparr>rv_name = ''Bob'', rv_email = ''b@x.com'', rv_state = ''pending'',
     rv_comments = ''none''\<rparr>"

definition review_a_done :: review where
  "review_a_done = \<lparr>rv_name = ''Alice'', rv_email = ''a@x.com'', rv_state = ''accepted'',
     rv_comments = ''fine''\<rparr>"

definition author_a :: author where
  "author_a = \<lparr>au_name = ''Alice'', au_email = ''a@x.com'', au_affiliation = ''X''\<rparr>"

definition author_c :: author where
  "author_c = \<lparr>au_name = ''Carol'', au_email = ''c@x.com'', au_affiliation = ''X''\<rparr>"

definition article20 :: article where
  "article20 = \<lparr>a_id = 20, a_userId = 1, a_title = ''T20'', a_abstract = ''A20'',
     a_keywords = [''x''], a_file = ''f20.pdf'', a_authors = [author_a], a_journalId = 10,
     a_reviewers = [review_b, review_a, review_a_done], a_createdAt = 5\<rparr>"

definition article21 :: article where
  "article21 = \<lparr>a_id = 21, a_userId = 3, a_title = ''T21'', a_abstract = ''A21'',
     a_keywords = [''y''], a_file = ''f21.pdf'', a_authors = [author_c, author_a],
     a_journalId = 10, a_reviewers = [review_b], a_createdAt = 6\<rparr>"

definition article22 :: article where
  "article22 = \<lparr>a_id = 22, a_userId = 3, a_title = ''T22'', a_abstract = ''A22'',
     a_keywords = [], a_file = ''f22.pdf'', a_authors = [author_c], a_journalId = 11,
     a_reviewers = [], a_createdAt = 7\<rparr>"

definition reviewer30 :: reviewer where
  "reviewer30 = \<lparr>r_id = 30, r_firstName = ''Alice'', r_lastName = ''Ames'',
     r_email = ''a@x.com'', r_affiliation = ''X''\<rparr>"

definition world0 :: world where
  "world0 = \<lparr>Article = [article20, article21, article22], Journal = [journal10, journal11],
     Reviewer = [reviewer30], Auth = [alice, bob], fresh = 100, now = 1700000000000,
     db_fail_after = None, mail = MailSent ''250 OK'',
     uploads = [(''a.txt'', ''A''), (''b.txt'', ''B'')], zip_dir = True, zips = [],
     timers = []\<rparr>"

definition user_a :: user where
  "user_a = \<lparr>user_id = 1, user_email = ''a@x.com''\<rparr>"

definition editor_req :: addEditor_req where
  "editor_req = \<lparr>ae_firstName = ''Alice'', ae_middleName = ''C'', ae_lastName = ''Cole'',
     ae_email = ''c@x.com'', ae_phoneNumber = ''333'', ae_gender = ''f'',
     ae_journalId = Some 11\<rparr>"

definition random0 :: random_source where
  "random0 = \<lparr>rnd_base36 = ''0.4fzyo82mvyr'', rnd_suffix = 7\<rparr>"

lemmas example_defs =
  world0_def user_a_def alice_def bob_def journal10_def journal11_def review_a_def review_b_def
  review_a_done_def author_a_def author_c_def article20_def article21_def article22_def
  reviewer30_def editor_req_def random0_def

section \<open>Facts about the store operations\<close>

lemma query_up:
  "db_fail_after w = None \<Longrightarrow> query f w = (case f w of (x, w') \<Rightarrow> (Inr x, w'))"
  by (simp add: query_def db_tick_def)

lemma query_down:
  "db_fail_after w = Some 0 \<Longrightarrow> query f w = (Inl DbError, w)"
  by (simp add: query_def db_tick_def)

lemma same_id_in_store:
  assumes "distinct (map key xs)" and "a \<in> set xs"
  shows "list_ex (\<lambda>b. key b = key a) (filter P xs) \<longleftrightarrow> P a"
proof -
  from assms(1) have inj: "inj_on key (set xs)" by (simp add: distinct_map)
  show ?thesis
  proof
    assume "list_ex (\<lambda>b. key b = key a) (filter P xs)"
    then obtain b where b: "b \<in> set xs" "P b" "key b = key a"
      by (auto simp: list_ex_iff)
    with inj assms(2) have "b = a" by (auto dest: inj_onD)
    with b show "P a" by simp
  next
    assume "P a"
    with assms(2) show "list_ex (\<lambda>b. key b = key a) (filter P xs)"
      by (auto simp: list_ex_iff)
  qed
qed

lemma merge_without_duplicates:
  assumes "distinct (map key xs)"
  shows "filter (\<lambda>b. \<not> list_ex (\<lambda>a. key a = key b) (filter P xs)) (filter Q xs)
         = filter (\<lambda>a. \<not> P a \<and> Q a) xs"
proof -
  have "filter (\<lambda>b. \<not> list_ex (\<lambda>a. key a = key b) (filter P xs)) (filter Q xs)
        = filter (\<lambda>b. Q b \<and> \<not> list_ex (\<lambda>a. key a = key b) (filter P xs)) xs"
    by (simp add: conj_commute)
  also have "\<dots> = filter (\<lambda>a. \<not> P a \<and> Q a) xs"
    using same_id_in_store [OF assms, of _ P] by (intro filter_cong) auto
  finally show ?thesis .
qed

lemma find_by_id:
  assumes "distinct (map key xs)" and "a \<in> set xs"
  shows "find (id_is key (Some (key a))) xs = Some a"
  using assms by (induction xs) (auto simp: id_is_def)

lemma find_by_id_none:
  "(\<forall>a \<in> set xs. i \<noteq> Some (key a)) \<Longrightarrow> find (id_is key i) xs = None"
  by (cases i) (auto simp: find_None_iff id_is_def)

lemma update_first_absent:
  "\<forall>x \<in> set xs. \<not> p x \<Longrightarrow> update_first p f xs = xs"
  by (induction xs) auto

lemma delete_first_absent:
  "\<forall>x \<in> set xs. \<not> p x \<Longrightarrow> delete_first p xs = xs"
  by (induction xs) auto

lemma update_first_unique:
  "distinct (map key xs) \<Longrightarrow>
     update_first (\<lambda>x. key x = k) f xs = map (\<lambda>x. if key x = k then f x else x) xs"
proof (induction xs)
  case Nil
  show ?case by simp
next
  case (Cons x xs)
  show ?case
  proof (cases "key x = k")
    case True
    from Cons.prems have "key x \<notin> key ` set xs" by simp
    with True have "\<forall>y \<in> set xs. key y \<noteq> k" by blast
    then have "map (\<lambda>x. if key x = k then f x else x) xs = xs"
      by (simp add: map_idI)
    with True show ?thesis by simp
  next
    case False
    with Cons show ?thesis by simp
  qed
qed

lemma delete_first_unique:
  "distinct (map key xs) \<Longrightarrow> delete_first (\<lambda>x. key x = k) xs = filter (\<lambda>x. key x \<noteq> k) xs"
proof (induction xs)
  case Nil
  show ?case by simp
next
  case (Cons x xs)
  show ?case
  proof (cases "key x = k")
    case True
    from Cons.prems have "key x \<notin> key ` set xs" by simp
    with True have "\<forall>y \<in> set xs. key y \<noteq> k" by blast
    then have "filter (\<lambda>x. key x \<noteq> k) xs = xs" by simp
    with True show ?thesis by simp
  next
    case False
    with Cons show ?thesis by simp
  qed
qed

lemma id_is_Some: "id_is key (Some k) = (\<lambda>x. key x = k)"
  by (simp add: id_is_def fun_eq_iff)

lemma findIndex_from_none:
  "\<forall>x \<in> set xs. \<not> p x \<Longrightarrow> findIndex_from k p xs = - 1"
  by (induction xs arbitrary: k) auto

lemma findIndex_from_first:
  "\<exists>x \<in> set xs. p x \<Longrightarrow>
     \<exists>i < length xs. findIndex_from k p xs = k + int i \<and> p (xs ! i) \<and> (\<forall>j < i. \<not> p (xs ! j))"
proof (induction xs arbitrary: k)
  case Nil
  then show ?case by simp
next
  case (Cons x xs)
  show ?case
  proof (cases "p x")
    case True
    then have "findIndex_from k p (x # xs) = k + int 0 \<and> p ((x # xs) ! 0) \<and> (\<forall>j < 0. \<not> p ((x # xs) ! j))"
      by simp
    then show ?thesis by blast
  next
    case False
    with Cons.prems have "\<exists>y \<in> set xs. p y" by auto
    from Cons.IH [OF this, of "k + 1"] obtain i where
      i: "i < length xs" "findIndex_from (k + 1) p xs = k + 1 + int i" "p (xs ! i)"
         "\<forall>j < i. \<not> p (xs ! j)" by blast
    have "\<forall>j < Suc i. \<not> p ((x # xs) ! j)"
      using False i(4) by (auto simp: nth_Cons split: nat.splits)
    with i False have "Suc i < length (x # xs) \<and> findIndex_from k p (x # xs) = k + int (Suc i)
        \<and> p ((x # xs) ! Suc i) \<and> (\<forall>j < Suc i. \<not> p ((x # xs) ! j))"
      by simp
    then show ?thesis by blast
  qed
qed

lemma length_update_first: "length (update_first p f xs) = length xs"
  by (induction xs) auto

lemma update_first_nth:
  "k < length xs \<Longrightarrow>
     update_first p f xs ! k =
       (if p (xs ! k) \<and> (\<forall>j < k. \<not> p (xs ! j)) then f (xs ! k) else xs ! k)"
proof (induction xs arbitrary: k)
  case Nil
  then show ?case by simp
next
  case (Cons x xs)
  show ?case
  proof (cases k)
    case 0
    then show ?thesis by simp
  next
    case (Suc n)
    with Cons.prems have n: "n < length xs" by simp
    show ?thesis
    proof (cases "p x")
      case True
      then have "\<not> (\<forall>j < k. \<not> p ((x # xs) ! j))" using Suc by auto
      with True Suc show ?thesis by auto
    next
      case False
      have "(\<forall>j < Suc n. \<not> p ((x # xs) ! j)) \<longleftrightarrow> (\<forall>j < n. \<not> p (xs ! j))"
        using False by (auto simp: nth_Cons less_Suc_eq_0_disj split: nat.splits)
      with False Suc Cons.IH [OF n] show ?thesis by auto
    qed
  qed
qed

lemma query_cases:
  "query f w =
     (case db_fail_after w of
        None \<Rightarrow> (case f w of (x, w') \<Rightarrow> (Inr x, w'))
      | Some 0 \<Rightarrow> (Inl DbError, w)
      | Some (Suc k) \<Rightarrow> (case f (w\<lparr>db_fail_after := Some k\<rparr>) of (x, w') \<Rightarrow> (Inr x, w')))"
  by (simp add: query_def db_tick_def split: option.splits nat.splits)

lemma length_slice_last: "length (slice_last n s) = min n (length s)"
  by (simp add: slice_last_def)

lemma set_slice_last: "set (slice_last n s) \<subseteq> set s"
  by (simp add: slice_last_def set_drop_subset)

lemma length_toUpperCase: "length (toUpperCase s) = length s"
  by (simp add: toUpperCase_def)

lemma upper_char_base36:
  assumes "c \<in> set (''0123456789'' @ lower_letters)"
  shows "(case map_of (zip (lower_letters @ latin1_lower) (upper_letters @ latin1_upper)) c of
            None \<Rightarrow> c
          | Some C \<Rightarrow> C)
         \<in> set (''0123456789'' @ upper_letters)"
proof -
  from assms have "c \<in> set ''0123456789abcdefghijklmnopqrstuvwxyz''"
    by (simp add: lower_letters_def)
  then show ?thesis
    unfolding lower_letters_def upper_letters_def latin1_lower_def latin1_upper_def
    by (elim set_ConsD [elim_format] disjE; simp)
qed

lemma toUpperCase_base36:
  "set s \<subseteq> set (''0123456789'' @ lower_letters) \<Longrightarrow>
     set (toUpperCase s) \<subseteq> set (''0123456789'' @ upper_letters)"
  using upper_char_base36 by (auto simp: toUpperCase_def simp del: set_append)

lemma slice_last_append: "n \<le> length ys \<Longrightarrow> slice_last n (xs @ ys) = slice_last n ys"
  by (simp add: slice_last_def)

lemma toUpperCase_append: "toUpperCase (xs @ ys) = toUpperCase xs @ toUpperCase ys"
  by (simp add: toUpperCase_def)

text \<open>The case mapping outside ASCII, and the two calls that need no round trip.\<close>

lemma toLowerCase_latin1:
  "toLowerCase [CHR 0xC9, CHR ''V'', CHR ''A''] = [CHR 0xE9, CHR ''v'', CHR ''a'']"
  by (simp add: toLowerCase_def lower_letters_def upper_letters_def latin1_lower_def
      latin1_upper_def)

lemma getJournalList_one_round_trip:
  "\<exists>r. fst (getJournalList (world0\<lparr>Journal := [journal11], db_fail_after := Some 1\<rparr>)) =
         Responded r \<and> status r = 200"
  by (simp add: getJournalList_def try_catch_def await_def Journal_find_populate_def query_cases
      resolve_def world0_def journal11_def success_data_def json_def)

lemma addBulkReviewer_empty:
  "\<exists>r. fst (addBulkReviewer [] (world0\<lparr>db_fail_after := Some 0\<rparr>)) = Responded r \<and>
       status r = 201"
  by (simp add: addBulkReviewer_def try_catch_def await_def Reviewer_insertMany_def
      resolve_def success_data_def json_def)

text \<open>What the password expression aims at: when the base-36 rendering has at least ten
  digits after \<^verbatim>\<open>0.\<close>, the password is ten uppercase alphanumeric characters.\<close>

lemma gen_password_base36:
  assumes "rnd_base36 rnd = ''0.'' @ ds"
      and "set ds \<subseteq> set (''0123456789'' @ lower_letters)"
      and "10 \<le> length ds"
  shows "length (gen_password rnd) = 10
       \<and> set (gen_password rnd) \<subseteq> set (''0123456789'' @ upper_letters)"
proof -
  have "gen_password rnd = slice_last 10 (toUpperCase ds)"
    unfolding gen_password_def assms(1) toUpperCase_append
    by (rule slice_last_append) (simp add: length_toUpperCase assms(3))
  moreover have "set (slice_last 10 (toUpperCase ds)) \<subseteq> set (''0123456789'' @ upper_letters)"
    using set_slice_last toUpperCase_base36 [OF assms(2)] by (rule subset_trans)
  ultimately show ?thesis
    using assms(3) by (simp add: length_slice_last length_toUpperCase)
qed

lemma yields_resolve: "P x \<Longrightarrow> yields (resolve x) P"
  by (simp add: yields_def resolve_def)

lemma yields_throw: "yields (throw e) P"
  by (simp add: yields_def throw_def)

lemma yields_await: "(\<And>x. yields (f x) P) \<Longrightarrow> yields (await m f) P"
  by (auto simp: yields_def await_def split: prod.splits sum.splits)

lemma yields_option:
  "yields a P \<Longrightarrow> (\<And>v. yields (b v) P) \<Longrightarrow> yields (case x of None \<Rightarrow> a | Some v \<Rightarrow> b v) P"
  by (cases x) simp_all

lemma yields_if: "yields a P \<Longrightarrow> yields b P \<Longrightarrow> yields (if c then a else b) P"
  by simp

lemma try_catch_yields:
  assumes "try_catch block handler w = (Responded r, w')"
      and "yields block P"
      and "\<And>e. P (handler e)"
  shows "P r"
  using assms
  by (auto simp: try_catch_def yields_def split: prod.splits sum.splits)

lemma envelope_failure: "c = 400 \<or> c = 404 \<Longrightarrow> uniform_envelope (failure c m)"
  by (auto simp: uniform_envelope_def failure_def json_def)

lemma envelope_failure_error: "c = 400 \<or> c = 404 \<Longrightarrow> uniform_envelope (failure_error c m e)"
  by (auto simp: uniform_envelope_def failure_error_def json_def)

lemma envelope_success: "c = 200 \<or> c = 201 \<Longrightarrow> uniform_envelope (success c m)"
  by (auto simp: uniform_envelope_def success_def json_def)

lemma envelope_success_data: "c = 200 \<or> c = 201 \<Longrightarrow> uniform_envelope (success_data c m d)"
  by (auto simp: uniform_envelope_def success_data_def json_def)

lemma envelope_failure_data:
  "uniform_envelope (json 400 [(''success'', JBool False), (''message'', JString m), (''data'', v)])"
  by (simp add: uniform_envelope_def json_def)

lemmas envelope_intros =
  envelope_failure envelope_failure_error envelope_success envelope_success_data
  envelope_failure_data

lemmas yields_intros =
  yields_resolve yields_throw yields_await yields_option yields_if

lemma addArticle_envelope:
  "addArticle req w = (Responded r, w') \<Longrightarrow> uniform_envelope r"
  unfolding addArticle_def
  by (erule try_catch_yields) (intro yields_intros envelope_intros; simp)+

lemma getArticle_envelope:
  "getArticle u w = (Responded r, w') \<Longrightarrow> uniform_envelope r"
  unfolding getArticle_def
  by (erule try_catch_yields) (intro yields_intros envelope_intros; simp)+

lemma sendMail_envelope:
  "sendMail req w = (Responded r, w') \<Longrightarrow> uniform_envelope r"
  unfolding sendMail_def
  by (erule try_catch_yields) (intro yields_intros envelope_intros; simp)+

lemma getJournalList_envelope:
  "getJournalList w = (Responded r, w') \<Longrightarrow> uniform_envelope r"
  unfolding getJournalList_def
  by (erule try_catch_yields) (intro yields_intros envelope_intros; simp)+

lemma addJournal_envelope:
  "addJournal req w = (Responded r, w') \<Longrightarrow> uniform_envelope r"
  unfolding addJournal_def
  by (erule try_catch_yields) (intro yields_intros envelope_intros; simp)+

lemma deleteJournal_envelope:
  "deleteJournal i w = (Responded r, w') \<Longrightarrow> uniform_envelope r"
  unfolding deleteJournal_def
  by (erule try_catch_yields) (intro yields_intros envelope_intros; simp)+

lemma getArticleList_envelope:
  "getArticleList i w = (Responded r, w') \<Longrightarrow> uniform_envelope r"
  unfolding getArticleList_def
  by (erule try_catch_yields) (intro yields_intros envelope_intros; simp)+

lemma updateArticle_envelope:
  "updateArticle req w = (Responded r, w') \<Longrightarrow> uniform_envelope r"
  unfolding updateArticle_def
  by (erule try_catch_yields) (intro yields_intros envelope_intros; simp)+

lemma addBulkReviewer_envelope:
  "addBulkReviewer reqs w = (Responded r, w') \<Longrightarrow> uniform_envelope r"
  unfolding addBulkReviewer_def
  by (erule try_catch_yields) (intro yields_intros envelope_intros; simp)+

lemma getReviewerList_envelope:
  "getReviewerList w = (Responded r, w') \<Longrightarrow> uniform_envelope r"
  unfolding getReviewerList_def
  by (erule try_catch_yields) (intro yields_intros envelope_intros; simp)+

lemma getReviewArticles_envelope:
  "getReviewArticles u w = (Responded r, w') \<Longrightarrow> uniform_envelope r"
  unfolding getReviewArticles_def
  by (erule try_catch_yields) (intro yields_intros envelope_intros; simp)+

lemma updateReview_envelope:
  "updateReview u req w = (Responded r, w') \<Longrightarrow> uniform_envelope r"
  unfolding updateReview_def
  by (erule try_catch_yields) (intro yields_intros envelope_intros; simp)+

lemma deleteReviewer_envelope:
  "deleteReviewer i w = (Responded r, w') \<Longrightarrow> uniform_envelope r"
  unfolding deleteReviewer_def
  by (erule try_catch_yields) (intro yields_intros envelope_intros; simp)+

lemma addEditor_envelope:
  "addEditor req rnd w = (Responded r, w') \<Longrightarrow> uniform_envelope r"
  unfolding addEditor_def
  by (erule try_catch_yields) (intro yields_intros envelope_intros; simp)+

lemma removeEditor_envelope:
  "removeEditor i w = (Responded r, w') \<Longrightarrow> uniform_envelope r"
  unfolding removeEditor_def
  by (erule try_catch_yields) (intro yields_intros envelope_intros; simp)+

lemma addReviewer_envelope:
  assumes "addReviewer req w = (Responded r, w')"
  shows "uniform_envelope r"
proof (cases "Reviewer_findOne (\<lambda>r. r_email r = ar_email req) w")
  case (Pair res w1)
  show ?thesis
  proof (cases res)
    case (Inl e)
    with Pair assms show ?thesis by (simp add: addReviewer_def)
  next
    case (Inr found)
    show ?thesis
    proof (cases found)
      case None
      with Pair Inr assms have
        "try_catch
           (await (Reviewer_create (new_reviewer req)) (\<lambda>responseData.
            await (Auth_findOneAndUpdate (\<lambda>a. u_email a = ar_email req)
                     (\<lambda>a. a\<lparr>u_isReviewer := True\<rparr>)) (\<lambda>_.
            resolve (success_data 201 ''Reviewer added successfully'' (ReviewerDoc responseData)))))
           (failure_error 404 ''Reviewer addition failed'') w1 = (Responded r, w')"
        by (simp add: addReviewer_def)
      then show ?thesis
        by (rule try_catch_yields) (intro yields_intros envelope_intros; simp)+
    next
      case (Some d)
      with Pair Inr assms have "r = failure 400 ''Reviewer already exists''"
        by (simp add: addReviewer_def)
      then show ?thesis by (simp add: envelope_failure)
    qed
  qed
qed

lemma createZip_response:
  assumes "createZip files w = (Responded r, w')"
  shows "uniform_envelope r \<or>
         (\<exists>name. r = json 200 [(''success'', JBool True),
                          (''message'', JString ''Zip file created successfully''),
                          (''filename'', JString name)])"
  using assms
  by (auto simp: createZip_def Let_def envelope_failure_error split: sum.splits if_splits)

text \<open>Every response of every handler is the uniform envelope, the success response of
  createZip apart.\<close>

lemma other_responses_follow_envelope:
  assumes "handle rq w = (Responded r, w')"
  shows "uniform_envelope r \<or>
         (\<exists>files name. rq = CreateZip files \<and>
            r = json 200 [(''success'', JBool True),
                          (''message'', JString ''Zip file created successfully''),
                          (''filename'', JString name)])"
proof (cases rq)
  case (CreateZip files)
  with assms createZip_response [of files w r w'] show ?thesis by auto
qed (use assms in \<open>auto dest: addArticle_envelope getArticle_envelope sendMail_envelope
      getJournalList_envelope addJournal_envelope deleteJournal_envelope getArticleList_envelope
      updateArticle_envelope addReviewer_envelope addBulkReviewer_envelope
      getReviewerList_envelope getReviewArticles_envelope updateReview_envelope
      deleteReviewer_envelope addEditor_envelope removeEditor_envelope\<close>)

text \<open>The write stream's \<^verbatim>\<open>error\<close> event and the deferred deletion both throw outside the
  handler.\<close>

lemma createZip_write_error_escapes:
  "read_files (uploads w) files = Inr entries \<Longrightarrow> \<not> zip_dir w \<Longrightarrow>
     fst (createZip files w) = Uncaught IOError"
  by (simp add: createZip_def Let_def)

lemma unlink_zip_missing:
  "map_of (zips w) name = None \<Longrightarrow> unlink_zip name w = (Some IOError, w)"
  by (simp add: unlink_zip_def)

section \<open>Claims\<close>

text \<open>
  C1. With the database answering and article ids unique, getArticle for a user \<open>u\<close>
  answers 404 with the empty-result message exactly when no article is owned by \<open>u\<close> or
  lists \<open>u\<close>'s email among its authors; otherwise it answers 200 with a list that holds
  exactly those articles, each once, the owned ones first.
\<close>

theorem getArticle_union:
  assumes up: "db_fail_after w = None"
      and ids: "distinct (map a_id (Article w))"
  shows "\<exists>r. getArticle u w = (Responded r, w) \<and>
           (if \<forall>a \<in> set (Article w).
                 \<not> (a_userId a = user_id u \<or> user_email u \<in> au_email ` set (a_authors a))
            then r = failure 404 ''You didn't submit any journal article''
            else \<exists>xs. r = success_data 200 ''Journal Articles data retrieved successfully'' (Articles xs)
                   \<and> distinct xs
                   \<and> set xs = {a \<in> set (Article w).
                        a_userId a = user_id u \<or> user_email u \<in> au_email ` set (a_authors a)}
                   \<and> xs = filter (\<lambda>a. a_userId a = user_id u) (Article w) @
                          filter (\<lambda>a. a_userId a \<noteq> user_id u
                                    \<and> user_email u \<in> au_email ` set (a_authors a)) (Article w))"
proof -
  let ?own = "\<lambda>a. a_userId a = user_id u"
  let ?co = "\<lambda>a. list_ex (\<lambda>x. au_email x = user_email u) (a_authors a)"
  have co: "?co a \<longleftrightarrow> user_email u \<in> au_email ` set (a_authors a)" for a
    by (force simp: list_ex_iff)
  from ids have d: "distinct (Article w)" by (simp add: distinct_map)
  have merged: "filter (\<lambda>b. \<not> list_ex (\<lambda>a. a_id a = a_id b) (filter ?own (Article w))) (filter ?co (Article w))
        = filter (\<lambda>a. \<not> ?own a \<and> ?co a) (Article w)"
    by (rule merge_without_duplicates [OF ids])
  have run: "getArticle u w = (Responded
      (if length (filter ?own (Article w)) = 0 \<and> length (filter ?co (Article w)) = 0
       then failure 404 ''You didn't submit any journal article''
       else success_data 200 ''Journal Articles data retrieved successfully''
              (Articles (filter ?own (Article w) @ filter (\<lambda>a. \<not> ?own a \<and> ?co a) (Article w)))), w)"
    unfolding getArticle_def try_catch_def await_def Article_find_def
    by (simp add: query_up [OF up] resolve_def del: filter_filter) (simp only: merged, simp)
  show ?thesis
  proof (cases "\<forall>a \<in> set (Article w). \<not> (?own a \<or> user_email u \<in> au_email ` set (a_authors a))")
    case True
    then have "filter ?own (Article w) = []" "filter ?co (Article w) = []"
      by (auto simp: filter_empty_conv co)
    with True run show ?thesis by simp
  next
    case False
    then have "\<not> (filter ?own (Article w) = [] \<and> filter ?co (Article w) = [])"
      by (auto simp: filter_empty_conv co)
    with False run d show ?thesis
      by (auto simp: co)
  qed
qed

theorem getArticle_union_witness:
  "db_fail_after world0 = None \<and> distinct (map a_id (Article world0)) \<and>
   getArticle user_a world0 =
     (Responded (success_data 200 ''Journal Articles data retrieved successfully''
        (Articles [article20, article21])), world0)"
  using getArticle_union [of world0 user_a]
  by (simp add: example_defs)

text \<open>
  C2. With the database answering and article ids unique, updateReview answers 404
  ``Journal article not found'' and changes nothing when the article id does not resolve.
  When it resolves and some reviewer entry carries the caller's email, exactly the first
  such entry is replaced by the supplied entry and the article is saved; when no entry
  carries the caller's email the call still succeeds and the store, and with it the
  article's reviewers sequence, is unchanged.
\<close>

theorem updateReview_first_match:
  assumes up: "db_fail_after w = None"
      and ids: "distinct (map a_id (Article w))"
  shows "((\<forall>a \<in> set (Article w). ur_id req \<noteq> Some (a_id a)) \<longrightarrow>
            updateReview u req w = (Responded (failure 404 ''Journal article not found''), w))
       \<and> (\<forall>a \<in> set (Article w). ur_id req = Some (a_id a) \<longrightarrow>
            (if \<exists>r \<in> set (a_reviewers a). rv_email r = user_email u
             then \<exists>i < length (a_reviewers a).
                    rv_email (a_reviewers a ! i) = user_email u
                  \<and> (\<forall>k < i. rv_email (a_reviewers a ! k) \<noteq> user_email u)
                  \<and> updateReview u req w =
                      (Responded (success 200 ''Journal article updated successfully''),
                       w\<lparr>Article := map (\<lambda>x. if a_id x = a_id a
                                              then a\<lparr>a_reviewers := (a_reviewers a)[i := ur_patch req]\<rparr>
                                              else x) (Article w)\<rparr>)
             else updateReview u req w =
                    (Responded (success 200 ''Journal article updated successfully''), w)))"
proof (intro conjI impI ballI)
  assume "\<forall>a \<in> set (Article w). ur_id req \<noteq> Some (a_id a)"
  then have "find (id_is a_id (ur_id req)) (Article w) = None"
    by (rule find_by_id_none)
  then show "updateReview u req w = (Responded (failure 404 ''Journal article not found''), w)"
    by (simp add: updateReview_def try_catch_def await_def Article_findById_def
        query_up [OF up] resolve_def)
next
  fix a
  assume a: "a \<in> set (Article w)" and i: "ur_id req = Some (a_id a)"
  let ?p = "\<lambda>reviewer. rv_email reviewer = user_email u"
  let ?rs = "assign_index (a_reviewers a) (findIndex ?p (a_reviewers a)) (ur_patch req)"
  have found: "find (id_is a_id (ur_id req)) (Article w) = Some a"
    using find_by_id [OF ids a] i by simp
  have run: "updateReview u req w =
      (Responded (success 200 ''Journal article updated successfully''),
       w\<lparr>Article := map (\<lambda>x. if a_id x = a_id a then a\<lparr>a_reviewers := ?rs\<rparr> else x) (Article w)\<rparr>)"
    by (simp add: updateReview_def try_catch_def await_def Article_findById_def Article_save_def
        query_up up resolve_def found update_first_unique [OF ids])
  show "if \<exists>r \<in> set (a_reviewers a). rv_email r = user_email u
        then \<exists>i < length (a_reviewers a).
               rv_email (a_reviewers a ! i) = user_email u
             \<and> (\<forall>k < i. rv_email (a_reviewers a ! k) \<noteq> user_email u)
             \<and> updateReview u req w =
                 (Responded (success 200 ''Journal article updated successfully''),
                  w\<lparr>Article := map (\<lambda>x. if a_id x = a_id a
                                         then a\<lparr>a_reviewers := (a_reviewers a)[i := ur_patch req]\<rparr>
                                         else x) (Article w)\<rparr>)
        else updateReview u req w =
               (Responded (success 200 ''Journal article updated successfully''), w)"
  proof (cases "\<exists>r \<in> set (a_reviewers a). rv_email r = user_email u")
    case True
    from findIndex_from_first [of "a_reviewers a" ?p 0, OF True] obtain i where
      i: "i < length (a_reviewers a)" "findIndex ?p (a_reviewers a) = int i"
         "?p (a_reviewers a ! i)" "\<forall>j < i. \<not> ?p (a_reviewers a ! j)"
      by (auto simp: findIndex_def)
    then have "?rs = (a_reviewers a)[i := ur_patch req]"
      by (simp add: assign_index_def)
    with run i True show ?thesis by auto
  next
    case False
    then have "findIndex ?p (a_reviewers a) = - 1"
      by (simp add: findIndex_def findIndex_from_none)
    then have same: "a\<lparr>a_reviewers := ?rs\<rparr> = a" by (simp add: assign_index_def)
    have "map (\<lambda>x. if a_id x = a_id a then a else x) (Article w) = Article w"
    proof (rule map_idI)
      fix x assume "x \<in> set (Article w)"
      with ids a show "(if a_id x = a_id a then a else x) = x"
        by (auto simp: distinct_map dest: inj_onD)
    qed
    with run have "updateReview u req w =
        (Responded (success 200 ''Journal article updated successfully''), w)"
      by (simp only: same) simp
    with False show ?thesis by simp
  qed
qed
theorem updateReview_first_match_witness:
  "db_fail_after world0 = None \<and> distinct (map a_id (Article world0)) \<and>
   article20 \<in> set (Article world0) \<and>
   (\<exists>r \<in> set (a_reviewers article20). rv_email r = user_email user_a) \<and>
   updateReview user_a \<lparr>ur_id = Some 20, ur_patch = review_a_done\<rparr> world0 =
     (Responded (success 200 ''Journal article updated successfully''),
      world0\<lparr>Article :=
        [article20\<lparr>a_reviewers := [review_b, review_a_done, review_a_done]\<rparr>,
         article21, article22]\<rparr>) \<and>
   article22 \<in> set (Article world0) \<and>
   \<not> (\<exists>r \<in> set (a_reviewers article22). rv_email r = user_email user_a) \<and>
   updateReview user_a \<lparr>ur_id = Some 22, ur_patch = review_a_done\<rparr> world0 =
     (Responded (success 200 ''Journal article updated successfully''), world0) \<and>
   Some 99 \<notin> (\<lambda>a. Some (a_id a)) ` set (Article world0) \<and>
   updateReview user_a \<lparr>ur_id = Some 99, ur_patch = review_a_done\<rparr> world0 =
     (Responded (failure 404 ''Journal article not found''), world0)"
  using updateReview_first_match [of world0 "\<lparr>ur_id = Some 20, ur_patch = review_a_done\<rparr>" user_a]
        updateReview_first_match [of world0 "\<lparr>ur_id = Some 22, ur_patch = review_a_done\<rparr>" user_a]
        updateReview_first_match [of world0 "\<lparr>ur_id = Some 99, ur_patch = review_a_done\<rparr>" user_a]
  by (simp add: example_defs updateReview_def try_catch_def await_def Article_findById_def
      Article_save_def query_up resolve_def id_is_def findIndex_def assign_index_def)

text \<open>
  C4. With the database answering and ids unique, deleteJournal answers 404 ``Journal not
  found'' and deletes nothing when the journal id does not resolve. When it resolves to
  \<open>j\<close>, that journal is removed; the Auth record named by \<open>j\<close>'s editorId is removed too
  when \<open>j\<close> has one, and the Auth collection is untouched when it has none.
\<close>

theorem deleteJournal_cascade:
  assumes up: "db_fail_after w = None"
      and jids: "distinct (map j_id (Journal w))"
      and uids: "distinct (map u_id (Auth w))"
  shows "((\<forall>j \<in> set (Journal w). j_id j \<noteq> i) \<longrightarrow>
            deleteJournal i w = (Responded (failure 404 ''Journal not found''), w))
       \<and> (\<forall>j \<in> set (Journal w). j_id j = i \<longrightarrow>
            deleteJournal i w =
              (Responded (success 200 ''Journal deleted successfully''),
               w\<lparr>Journal := filter (\<lambda>x. j_id x \<noteq> i) (Journal w),
                 Auth := (case j_editorId j of
                            None \<Rightarrow> Auth w
                          | Some e \<Rightarrow> filter (\<lambda>a. u_id a \<noteq> e) (Auth w))\<rparr>))"
proof (intro conjI impI ballI)
  assume none: "\<forall>j \<in> set (Journal w). j_id j \<noteq> i"
  then have "find (id_is j_id (Some i)) (Journal w) = None"
    by (intro find_by_id_none) auto
  moreover from none have "delete_first (id_is j_id (Some i)) (Journal w) = Journal w"
    by (intro delete_first_absent) (simp add: id_is_def)
  ultimately show "deleteJournal i w = (Responded (failure 404 ''Journal not found''), w)"
    by (simp add: deleteJournal_def try_catch_def await_def Journal_findByIdAndDelete_def
        query_up [OF up] resolve_def)
next
  fix j
  assume j: "j \<in> set (Journal w)" and i: "j_id j = i"
  have found: "find (id_is j_id (Some i)) (Journal w) = Some j"
    using find_by_id [OF jids j] i by simp
  have gone: "delete_first (id_is j_id (Some i)) (Journal w) = filter (\<lambda>x. j_id x \<noteq> i) (Journal w)"
    by (simp add: id_is_Some delete_first_unique [OF jids])
  show "deleteJournal i w =
          (Responded (success 200 ''Journal deleted successfully''),
           w\<lparr>Journal := filter (\<lambda>x. j_id x \<noteq> i) (Journal w),
             Auth := (case j_editorId j of
                        None \<Rightarrow> Auth w
                      | Some e \<Rightarrow> filter (\<lambda>a. u_id a \<noteq> e) (Auth w))\<rparr>)"
  proof (cases "j_editorId j")
    case None
    with found gone show ?thesis
      by (simp add: deleteJournal_def try_catch_def await_def Journal_findByIdAndDelete_def
          query_up [OF up] resolve_def)
  next
    case (Some e)
    with found gone show ?thesis
      by (simp add: deleteJournal_def try_catch_def await_def Journal_findByIdAndDelete_def
          Auth_findByIdAndDelete_def query_up up resolve_def id_is_Some
          delete_first_unique [OF uids])
  qed
qed

theorem deleteJournal_cascade_witness:
  "db_fail_after world0 = None \<and> distinct (map j_id (Journal world0)) \<and>
   distinct (map u_id (Auth world0)) \<and>
   journal10 \<in> set (Journal world0) \<and> j_id journal10 = 10 \<and>
   deleteJournal 10 world0 =
     (Responded (success 200 ''Journal deleted successfully''),
      world0\<lparr>Journal := [journal11], Auth := [alice]\<rparr>) \<and>
   journal11 \<in> set (Journal world0) \<and> j_id journal11 = 11 \<and>
   deleteJournal 11 world0 =
     (Responded (success 200 ''Journal deleted successfully''),
      world0\<lparr>Journal := [journal10]\<rparr>) \<and>
   99 \<notin> j_id ` set (Journal world0) \<and>
   deleteJournal 99 world0 = (Responded (failure 404 ''Journal not found''), world0)"
  using deleteJournal_cascade [of world0 10] deleteJournal_cascade [of world0 11]
        deleteJournal_cascade [of world0 99]
  by (simp add: example_defs)

text \<open>
  C7. With the database answering and reviewer ids unique, deleteReviewer answers 404
  ``Reviewer not found'' and changes nothing when the id does not resolve. When it resolves
  to \<open>r\<close>, \<open>r\<close> is removed from the Reviewer collection and the Auth collection keeps
  every record: the first record whose email is \<open>r\<close>'s email has isReviewer set to false
  and all its other fields as before, every other record is unchanged.
\<close>

theorem deleteReviewer_clears_flag:
  assumes up: "db_fail_after w = None"
      and rids: "distinct (map r_id (Reviewer w))"
  shows "((\<forall>r \<in> set (Reviewer w). r_id r \<noteq> i) \<longrightarrow>
            deleteReviewer i w = (Responded (failure 404 ''Reviewer not found''), w))
       \<and> (\<forall>r \<in> set (Reviewer w). r_id r = i \<longrightarrow>
            (\<exists>us. deleteReviewer i w =
                     (Responded (success 200 ''Reviewer deleted successfully''),
                      w\<lparr>Reviewer := filter (\<lambda>x. r_id x \<noteq> i) (Reviewer w), Auth := us\<rparr>)
                 \<and> length us = length (Auth w)
                 \<and> (\<forall>k < length (Auth w).
                      us ! k =
                        (if u_email (Auth w ! k) = r_email r
                            \<and> (\<forall>j < k. u_email (Auth w ! j) \<noteq> r_email r)
                         then (Auth w ! k)\<lparr>u_isReviewer := False\<rparr>
                         else Auth w ! k))))"
proof (intro conjI impI ballI)
  assume none: "\<forall>r \<in> set (Reviewer w). r_id r \<noteq> i"
  then have "find (id_is r_id (Some i)) (Reviewer w) = None"
    by (intro find_by_id_none) auto
  moreover from none have "delete_first (id_is r_id (Some i)) (Reviewer w) = Reviewer w"
    by (intro delete_first_absent) (simp add: id_is_def)
  ultimately show "deleteReviewer i w = (Responded (failure 404 ''Reviewer not found''), w)"
    by (simp add: deleteReviewer_def try_catch_def await_def Reviewer_findByIdAndDelete_def
        query_up [OF up] resolve_def)
next
  fix r
  assume r: "r \<in> set (Reviewer w)" and i: "r_id r = i"
  let ?us = "update_first (\<lambda>a. u_email a = r_email r) (\<lambda>a. a\<lparr>u_isReviewer := False\<rparr>) (Auth w)"
  have found: "find (id_is r_id (Some i)) (Reviewer w) = Some r"
    using find_by_id [OF rids r] i by simp
  have gone: "delete_first (id_is r_id (Some i)) (Reviewer w) = filter (\<lambda>x. r_id x \<noteq> i) (Reviewer w)"
    by (simp add: id_is_Some delete_first_unique [OF rids])
  have run: "deleteReviewer i w =
      (Responded (success 200 ''Reviewer deleted successfully''),
       w\<lparr>Reviewer := filter (\<lambda>x. r_id x \<noteq> i) (Reviewer w), Auth := ?us\<rparr>)"
    using found gone
    by (simp add: deleteReviewer_def try_catch_def await_def Reviewer_findByIdAndDelete_def
        Auth_findOneAndUpdate_def query_up up resolve_def)
  have "length ?us = length (Auth w)" by (rule length_update_first)
  moreover have "\<forall>k < length (Auth w).
      ?us ! k = (if u_email (Auth w ! k) = r_email r \<and> (\<forall>j < k. u_email (Auth w ! j) \<noteq> r_email r)
                 then (Auth w ! k)\<lparr>u_isReviewer := False\<rparr> else Auth w ! k)"
    by (simp add: update_first_nth)
  ultimately show "\<exists>us. deleteReviewer i w =
                     (Responded (success 200 ''Reviewer deleted successfully''),
                      w\<lparr>Reviewer := filter (\<lambda>x. r_id x \<noteq> i) (Reviewer w), Auth := us\<rparr>)
                 \<and> length us = length (Auth w)
                 \<and> (\<forall>k < length (Auth w).
                      us ! k =
                        (if u_email (Auth w ! k) = r_email r
                            \<and> (\<forall>j < k. u_email (Auth w ! j) \<noteq> r_email r)
                         then (Auth w ! k)\<lparr>u_isReviewer := False\<rparr>
                         else Auth w ! k))"
    using run by blast
qed

theorem deleteReviewer_clears_flag_witness:
  "db_fail_after world0 = None \<and> distinct (map r_id (Reviewer world0)) \<and>
   reviewer30 \<in> set (Reviewer world0) \<and> r_id reviewer30 = 30 \<and>
   deleteReviewer 30 world0 =
     (Responded (success 200 ''Reviewer deleted successfully''),
      world0\<lparr>Reviewer := [], Auth := [alice\<lparr>u_isReviewer := False\<rparr>, bob]\<rparr>) \<and>
   99 \<notin> r_id ` set (Reviewer world0) \<and>
   deleteReviewer 99 world0 = (Responded (failure 404 ''Reviewer not found''), world0)"
proof -
  have up: "db_fail_after world0 = None"
    and ids: "distinct (map r_id (Reviewer world0))"
    and r: "reviewer30 \<in> set (Reviewer world0)" "r_id reviewer30 = 30"
    and none: "\<forall>r \<in> set (Reviewer world0). r_id r \<noteq> 99"
    and auths: "Auth world0 = [alice, bob]"
    and rest: "filter (\<lambda>x. r_id x \<noteq> 30) (Reviewer world0) = []"
    by (simp_all add: world0_def reviewer30_def)
  from deleteReviewer_clears_flag [OF up ids, of 30] r obtain us where
    run: "deleteReviewer 30 world0 =
            (Responded (success 200 ''Reviewer deleted successfully''),
             world0\<lparr>Reviewer := filter (\<lambda>x. r_id x \<noteq> 30) (Reviewer world0), Auth := us\<rparr>)"
    and len: "length us = length (Auth world0)"
    and nth: "\<And>k. k < length (Auth world0) \<Longrightarrow>
                us ! k = (if u_email (Auth world0 ! k) = r_email reviewer30
                             \<and> (\<forall>j < k. u_email (Auth world0 ! j) \<noteq> r_email reviewer30)
                          then (Auth world0 ! k)\<lparr>u_isReviewer := False\<rparr>
                          else Auth world0 ! k)"
    by blast
  have "us ! 0 = alice\<lparr>u_isReviewer := False\<rparr>"
    using nth [of 0] by (simp add: auths alice_def reviewer30_def)
  moreover have "us ! 1 = bob"
    using nth [of 1] by (simp add: auths alice_def bob_def reviewer30_def)
  ultimately have "us = [alice\<lparr>u_isReviewer := False\<rparr>, bob]"
    using len by (intro nth_equalityI) (auto simp: auths less_Suc_eq)
  with run rest have "deleteReviewer 30 world0 =
     (Responded (success 200 ''Reviewer deleted successfully''),
      world0\<lparr>Reviewer := [], Auth := [alice\<lparr>u_isReviewer := False\<rparr>, bob]\<rparr>)"
    by simp
  moreover from deleteReviewer_clears_flag [OF up ids, of 99] none
  have "deleteReviewer 99 world0 = (Responded (failure 404 ''Reviewer not found''), world0)"
    by blast
  moreover from none have "99 \<notin> r_id ` set (Reviewer world0)" by auto
  ultimately show ?thesis using up ids r by blast
qed

text \<open>
  C10. With the database answering and journal ids unique, removeEditor fails (404
  ``Journal not found'', nothing changed) only when the id does not resolve. For every
  journal that resolves it answers with success and the journal's editorId is null
  afterwards; when the journal had no editor, no Auth record is deleted and the whole store
  is as before.
\<close>

theorem removeEditor_without_editor:
  assumes up: "db_fail_after w = None"
      and jids: "distinct (map j_id (Journal w))"
  shows "((\<forall>j \<in> set (Journal w). j_id j \<noteq> i) \<longrightarrow>
            removeEditor i w = (Responded (failure 404 ''Journal not found''), w))
       \<and> (\<forall>j \<in> set (Journal w). j_id j = i \<longrightarrow>
            (\<exists>w'. removeEditor i w = (Responded (success 200 ''Editor removed successfully''), w')
                 \<and> Journal w' = map (\<lambda>x. if j_id x = i then x\<lparr>j_editorId := None\<rparr> else x) (Journal w)
                 \<and> (j_editorId j = None \<longrightarrow> w' = w)))"
proof (intro conjI impI ballI)
  assume none: "\<forall>j \<in> set (Journal w). j_id j \<noteq> i"
  then have "find (id_is j_id (Some i)) (Journal w) = None"
    by (intro find_by_id_none) auto
  then show "removeEditor i w = (Responded (failure 404 ''Journal not found''), w)"
    by (simp add: removeEditor_def try_catch_def await_def Journal_findById_def
        query_up [OF up] resolve_def)
next
  fix j
  assume j: "j \<in> set (Journal w)" and i: "j_id j = i"
  let ?js = "map (\<lambda>x. if j_id x = i then x\<lparr>j_editorId := None\<rparr> else x) (Journal w)"
  let ?us = "delete_first (id_is u_id (j_editorId j)) (Auth w)"
  have found: "find (id_is j_id (Some i)) (Journal w) = Some j"
    using find_by_id [OF jids j] i by simp
  have run: "removeEditor i w =
      (Responded (success 200 ''Editor removed successfully''), w\<lparr>Auth := ?us, Journal := ?js\<rparr>)"
  proof -
    have s1: "Journal_findById (Some i) w = (Inr (Some j), w)"
      by (simp add: Journal_findById_def query_up [OF up] found)
    have s2: "Auth_findByIdAndDelete (j_editorId j) w =
                (Inr (find (id_is u_id (j_editorId j)) (Auth w)), w\<lparr>Auth := ?us\<rparr>)"
      by (simp add: Auth_findByIdAndDelete_def query_up [OF up])
    have up2: "db_fail_after (w\<lparr>Auth := ?us\<rparr>) = None"
      using up by simp
    have s3: "Journal_findByIdAndUpdate (Some i) (\<lambda>j. j\<lparr>j_editorId := None\<rparr>) (w\<lparr>Auth := ?us\<rparr>) =
                (Inr (map_option (\<lambda>j. j\<lparr>j_editorId := None\<rparr>) (find (id_is j_id (Some i)) (Journal w))),
                 w\<lparr>Auth := ?us, Journal := ?js\<rparr>)"
      by (simp add: Journal_findByIdAndUpdate_def query_up [OF up2] id_is_Some
          update_first_unique [OF jids])
    show ?thesis
      by (simp add: removeEditor_def try_catch_def await_def s1 s2 s3 resolve_def)
  qed
  have "w\<lparr>Auth := ?us, Journal := ?js\<rparr> = w" if none: "j_editorId j = None"
  proof -
    have "?us = Auth w"
      using none by (intro delete_first_absent) (simp add: id_is_def)
    moreover have "?js = Journal w"
    proof (rule map_idI)
      fix x
      assume x: "x \<in> set (Journal w)"
      have "x = j" if "j_id x = i"
        using jids j x i that by (auto simp: distinct_map dest: inj_onD)
      moreover have "j\<lparr>j_editorId := None\<rparr> = j" using none by simp
      ultimately show "(if j_id x = i then x\<lparr>j_editorId := None\<rparr> else x) = x"
        by auto
    qed
    ultimately show ?thesis by simp
  qed
  with run show "\<exists>w'. removeEditor i w = (Responded (success 200 ''Editor removed successfully''), w')
                 \<and> Journal w' = ?js \<and> (j_editorId j = None \<longrightarrow> w' = w)"
    by simp
qed

theorem removeEditor_without_editor_witness:
  "db_fail_after world0 = None \<and> distinct (map j_id (Journal world0)) \<and>
   journal11 \<in> set (Journal world0) \<and> j_id journal11 = 11 \<and> j_editorId journal11 = None \<and>
   removeEditor 11 world0 = (Responded (success 200 ''Editor removed successfully''), world0) \<and>
   99 \<notin> j_id ` set (Journal world0) \<and>
   removeEditor 99 world0 = (Responded (failure 404 ''Journal not found''), world0)"
  using removeEditor_without_editor [of world0 11] removeEditor_without_editor [of world0 99]
  by (simp add: example_defs removeEditor_def try_catch_def await_def Journal_findById_def
      Auth_findByIdAndDelete_def Journal_findByIdAndUpdate_def query_up resolve_def id_is_def)

text \<open>
  C5. When the email or the phone number of an editor-assignment request belongs to an
  existing Auth record, addEditor answers with a failure and leaves the Auth and the Journal
  collections as they were, whatever the state of the database connection; with the
  database answering, the answer is the 400 conflict response (``Editor already exists''
  for the email, else ``Phone number already exists'') and the whole store is unchanged.
\<close>

theorem addEditor_conflict:
  assumes conflict: "\<exists>a \<in> set (Auth w). u_email a = ae_email req \<or> u_phoneNumber a = ae_phoneNumber req"
  shows "\<exists>r w'. addEditor req rnd w = (Responded r, w')
           \<and> Auth w' = Auth w \<and> Journal w' = Journal w
           \<and> r \<in> {failure 400 ''Editor already exists'', failure 400 ''Phone number already exists'',
                   failure_error 404 ''Editor addition failed'' DbError}
           \<and> (db_fail_after w = None \<longrightarrow>
                 w' = w \<and>
                 r = (if \<exists>a \<in> set (Auth w). u_email a = ae_email req
                      then failure 400 ''Editor already exists''
                      else failure 400 ''Phone number already exists''))"
proof (cases "\<exists>a \<in> set (Auth w). u_email a = ae_email req")
  case True
  then obtain a where a: "find (\<lambda>a. u_email a = ae_email req) (Auth w) = Some a"
    by (cases "find (\<lambda>a. u_email a = ae_email req) (Auth w)") (auto simp: find_None_iff)
  show ?thesis
  proof (cases "db_fail_after w")
    case None
    with a True show ?thesis
      by (simp add: addEditor_def try_catch_def await_def Auth_findOne_def query_cases resolve_def)
  next
    case (Some k)
    with a True show ?thesis
      by (cases k)
         (simp_all add: addEditor_def try_catch_def await_def Auth_findOne_def query_cases resolve_def)
  qed
next
  case False
  then have e: "find (\<lambda>a. u_email a = ae_email req) (Auth w) = None"
    by (auto simp: find_None_iff)
  from False conflict have "\<exists>a \<in> set (Auth w). u_phoneNumber a = ae_phoneNumber req" by blast
  then obtain a where a: "find (\<lambda>a. u_phoneNumber a = ae_phoneNumber req) (Auth w) = Some a"
    by (cases "find (\<lambda>a. u_phoneNumber a = ae_phoneNumber req) (Auth w)") (auto simp: find_None_iff)
  show ?thesis
  proof (cases "db_fail_after w")
    case None
    with a e False show ?thesis
      by (simp add: addEditor_def try_catch_def await_def Auth_findOne_def query_cases resolve_def)
  next
    case (Some k)
    show ?thesis
    proof (cases k)
      case 0
      with Some a e False show ?thesis
        by (simp add: addEditor_def try_catch_def await_def Auth_findOne_def query_cases resolve_def)
    next
      case (Suc n)
      with Some a e False show ?thesis
        by (cases n)
           (simp_all add: addEditor_def try_catch_def await_def Auth_findOne_def query_cases resolve_def)
    qed
  qed
qed

theorem addEditor_conflict_witness:
  "(\<exists>a \<in> set (Auth world0). u_email a = ae_email (editor_req\<lparr>ae_email := ''a@x.com''\<rparr>)) \<and>
   addEditor (editor_req\<lparr>ae_email := ''a@x.com''\<rparr>) random0 world0 =
     (Responded (failure 400 ''Editor already exists''), world0) \<and>
   (\<exists>a \<in> set (Auth world0). u_phoneNumber a = ae_phoneNumber (editor_req\<lparr>ae_phoneNumber := ''222''\<rparr>)) \<and>
   addEditor (editor_req\<lparr>ae_phoneNumber := ''222''\<rparr>) random0 world0 =
     (Responded (failure 400 ''Phone number already exists''), world0)"
proof -
  have up: "db_fail_after world0 = None" by (simp add: world0_def)
  have e: "\<exists>a \<in> set (Auth world0). u_email a = ae_email (editor_req\<lparr>ae_email := ''a@x.com''\<rparr>)"
    by (simp add: example_defs)
  have p: "\<exists>a \<in> set (Auth world0). u_phoneNumber a = ae_phoneNumber (editor_req\<lparr>ae_phoneNumber := ''222''\<rparr>)"
    by (simp add: example_defs)
  have ne: "\<not> (\<exists>a \<in> set (Auth world0). u_email a = ae_email (editor_req\<lparr>ae_phoneNumber := ''222''\<rparr>))"
    by (simp add: example_defs)
  from e have "\<exists>a \<in> set (Auth world0).
      u_email a = ae_email (editor_req\<lparr>ae_email := ''a@x.com''\<rparr>)
      \<or> u_phoneNumber a = ae_phoneNumber (editor_req\<lparr>ae_email := ''a@x.com''\<rparr>)" by blast
  from addEditor_conflict [OF this, of random0] up e
  have first: "addEditor (editor_req\<lparr>ae_email := ''a@x.com''\<rparr>) random0 world0 =
     (Responded (failure 400 ''Editor already exists''), world0)"
    by auto
  from p have "\<exists>a \<in> set (Auth world0).
      u_email a = ae_email (editor_req\<lparr>ae_phoneNumber := ''222''\<rparr>)
      \<or> u_phoneNumber a = ae_phoneNumber (editor_req\<lparr>ae_phoneNumber := ''222''\<rparr>)" by blast
  from addEditor_conflict [OF this, of random0] up ne
  have second: "addEditor (editor_req\<lparr>ae_phoneNumber := ''222''\<rparr>) random0 world0 =
     (Responded (failure 400 ''Phone number already exists''), world0)"
    by auto
  from e p first second show ?thesis by blast
qed

text \<open>
  C6. With the database answering, getReviewArticles for a caller with email \<open>E\<close> answers
  404 ``No review articles found'' exactly when no article has a reviewer entry with email
  \<open>E\<close>. Otherwise it answers 200 with one item per article that has such an entry, in
  store order, and the reviewers sequence of every item is exactly the article's entries
  whose email is \<open>E\<close>: it is not empty and holds no entry of another email.
\<close>

theorem getReviewArticles_own_entries:
  assumes up: "db_fail_after w = None"
  shows "\<exists>r. getReviewArticles u w = (Responded r, w) \<and>
           (if \<forall>a \<in> set (Article w). \<forall>x \<in> set (a_reviewers a). rv_email x \<noteq> user_email u
            then r = failure 404 ''No review articles found''
            else \<exists>vs. r = success_data 200 ''Journal Articles data retrieved successfully''
                           (ReviewArticles vs)
                   \<and> map ra_id vs =
                       map a_id (filter (\<lambda>a. \<exists>x \<in> set (a_reviewers a). rv_email x = user_email u)
                                   (Article w))
                   \<and> (\<forall>v \<in> set vs.
                        (\<exists>a \<in> set (Article w).
                            ra_id v = a_id a
                          \<and> (\<exists>x \<in> set (a_reviewers a). rv_email x = user_email u)
                          \<and> ra_reviewers v = filter (\<lambda>x. rv_email x = user_email u) (a_reviewers a))
                      \<and> ra_reviewers v \<noteq> []
                      \<and> (\<forall>x \<in> set (ra_reviewers v). rv_email x = user_email u)))"
proof -
  let ?has = "\<lambda>a. list_ex (\<lambda>x. rv_email x = user_email u) (a_reviewers a)"
  let ?vs = "map (review_item (user_email u)) (filter ?has (Article w))"
  have has: "?has a \<longleftrightarrow> (\<exists>x \<in> set (a_reviewers a). rv_email x = user_email u)" for a
    by (simp add: list_ex_iff)
  have run: "getReviewArticles u w = (Responded
      (if filter ?has (Article w) = []
       then failure 404 ''No review articles found''
       else success_data 200 ''Journal Articles data retrieved successfully'' (ReviewArticles ?vs)), w)"
    by (simp add: getReviewArticles_def try_catch_def await_def Article_find_def
        query_up [OF up] resolve_def)
  show ?thesis
  proof (cases "\<forall>a \<in> set (Article w). \<forall>x \<in> set (a_reviewers a). rv_email x \<noteq> user_email u")
    case True
    then have "filter ?has (Article w) = []"
      by (auto simp: filter_empty_conv has)
    with True run show ?thesis by simp
  next
    case False
    then have ne: "filter ?has (Article w) \<noteq> []"
      by (auto simp: filter_empty_conv has)
    have ids: "map ra_id ?vs =
        map a_id (filter (\<lambda>a. \<exists>x \<in> set (a_reviewers a). rv_email x = user_email u) (Article w))"
      by (simp add: review_item_def has comp_def)
    have each: "\<forall>v \<in> set ?vs.
        (\<exists>a \<in> set (Article w).
            ra_id v = a_id a
          \<and> (\<exists>x \<in> set (a_reviewers a). rv_email x = user_email u)
          \<and> ra_reviewers v = filter (\<lambda>x. rv_email x = user_email u) (a_reviewers a))
        \<and> ra_reviewers v \<noteq> []
        \<and> (\<forall>x \<in> set (ra_reviewers v). rv_email x = user_email u)"
    proof
      fix v assume "v \<in> set ?vs"
      then obtain a where a: "a \<in> set (Article w)" "?has a" "v = review_item (user_email u) a"
        by auto
      from a(2) have ex: "\<exists>x \<in> set (a_reviewers a). rv_email x = user_email u"
        by (simp add: has)
      then have ne: "filter (\<lambda>x. rv_email x = user_email u) (a_reviewers a) \<noteq> []"
        by (simp add: filter_empty_conv)
      have v1: "ra_id v = a_id a"
        and v2: "ra_reviewers v = filter (\<lambda>x. rv_email x = user_email u) (a_reviewers a)"
        by (simp_all add: a(3) review_item_def)
      have "\<exists>a \<in> set (Article w).
            ra_id v = a_id a
          \<and> (\<exists>x \<in> set (a_reviewers a). rv_email x = user_email u)
          \<and> ra_reviewers v = filter (\<lambda>x. rv_email x = user_email u) (a_reviewers a)"
        using a(1) ex v1 v2 by blast
      moreover have "ra_reviewers v \<noteq> []" using ne v2 by simp
      moreover have "\<forall>x \<in> set (ra_reviewers v). rv_email x = user_email u"
        by (simp add: v2)
      ultimately show "(\<exists>a \<in> set (Article w).
            ra_id v = a_id a
          \<and> (\<exists>x \<in> set (a_reviewers a). rv_email x = user_email u)
          \<and> ra_reviewers v = filter (\<lambda>x. rv_email x = user_email u) (a_reviewers a))
        \<and> ra_reviewers v \<noteq> []
        \<and> (\<forall>x \<in> set (ra_reviewers v). rv_email x = user_email u)"
        by blast
    qed
    from run ne have r: "getReviewArticles u w =
        (Responded (success_data 200 ''Journal Articles data retrieved successfully''
           (ReviewArticles ?vs)), w)"
      by simp
    show ?thesis
    proof (intro exI conjI)
      show "getReviewArticles u w =
        (Responded (success_data 200 ''Journal Articles data retrieved successfully''
           (ReviewArticles ?vs)), w)" by (fact r)
      show "if \<forall>a \<in> set (Article w). \<forall>x \<in> set (a_reviewers a). rv_email x \<noteq> user_email u
            then success_data 200 ''Journal Articles data retrieved successfully''
                   (ReviewArticles ?vs) = failure 404 ''No review articles found''
            else \<exists>vs. success_data 200 ''Journal Articles data retrieved successfully''
                           (ReviewArticles ?vs) =
                        success_data 200 ''Journal Articles data retrieved successfully''
                           (ReviewArticles vs)
                   \<and> map ra_id vs =
                       map a_id (filter (\<lambda>a. \<exists>x \<in> set (a_reviewers a). rv_email x = user_email u)
                                   (Article w))
                   \<and> (\<forall>v \<in> set vs.
                        (\<exists>a \<in> set (Article w).
                            ra_id v = a_id a
                          \<and> (\<exists>x \<in> set (a_reviewers a). rv_email x = user_email u)
                          \<and> ra_reviewers v = filter (\<lambda>x. rv_email x = user_email u) (a_reviewers a))
                      \<and> ra_reviewers v \<noteq> []
                      \<and> (\<forall>x \<in> set (ra_reviewers v). rv_email x = user_email u))"
        unfolding if_not_P [OF False]
        by (intro exI [of _ ?vs] conjI refl ids each)
    qed
  qed
qed

theorem getReviewArticles_own_entries_witness:
  "db_fail_after world0 = None \<and>
   getReviewArticles user_a world0 =
     (Responded (success_data 200 ''Journal Articles data retrieved successfully''
        (ReviewArticles [\<lparr>ra_id = 20, ra_title = ''T20'', ra_createdAt = 5, ra_file = ''f20.pdf'',
                          ra_reviewers = [review_a, review_a_done]\<rparr>])), world0)"
  using getReviewArticles_own_entries [of world0 user_a]
  by (simp add: example_defs getReviewArticles_def try_catch_def await_def Article_find_def
      query_up resolve_def review_item_def)

text \<open>
  C8. The claim is that the generated password is a fixed-length uppercase alphanumeric
  string for every value of the random source. The password is the last ten characters of
  the upper-cased base-36 rendering of \<^verbatim>\<open>Math.random()\<close>, and a rendering shorter than
  twelve characters gives less: 0.5 is rendered \<^verbatim>\<open>"0.i"\<close> and 0 is rendered \<^verbatim>\<open>"0"\<close>, and
  both assignments succeed, with the passwords \<^verbatim>\<open>"0.I"\<close> (three characters, one of them
  the dot) and \<^verbatim>\<open>"0"\<close> (one character). The username is the lowercased first name
  followed by the suffix, here equal to a username that is already stored.
\<close>

theorem addEditor_short_password:
  "fst (addEditor editor_req \<lparr>rnd_base36 = ''0.i'', rnd_suffix = 7\<rparr> world0) =
     Responded (success_data 201 ''Editor added successfully'' (Credentials ''0.I'' ''alice7'')) \<and>
   fst (addEditor editor_req \<lparr>rnd_base36 = ''0'', rnd_suffix = 7\<rparr> world0) =
     Responded (success_data 201 ''Editor added successfully'' (Credentials ''0'' ''alice7''))"
  by (simp add: addEditor_def try_catch_def await_def Auth_findOne_def new_oid_def Auth_create_def
      Journal_findByIdAndUpdate_def query_up resolve_def example_defs gen_password_def
      gen_userName_def slice_last_def toUpperCase_def toLowerCase_def lower_letters_def
      upper_letters_def latin1_lower_def latin1_upper_def decimal.simps)

text \<open>
  C3. The claim is that no error leaves a handler uncaught. addReviewer awaits its first
  lookup before its \<^verbatim>\<open>try\<close> block: when the database rejects that lookup, the rejection
  leaves the handler and no response is sent.
\<close>

theorem addReviewer_lookup_escapes:
  "addReviewer \<lparr>ar_firstName = ''Carol'', ar_lastName = ''Cole'',
                 ar_email = ''c@x.com'', ar_affiliation = ''X''\<rparr>
     (world0\<lparr>db_fail_after := Some 0\<rparr>) =
   (Uncaught DbError, world0\<lparr>db_fail_after := Some 0\<rparr>)"
  by (simp add: addReviewer_def Reviewer_findOne_def query_down)

text \<open>
  C9. The claim is that every response is the uniform envelope, the success response of
  createZip in particular. That response carries the archive's name under the key
  \<^verbatim>\<open>filename\<close>, which the envelope does not have, where every other handler puts its
  payload under \<^verbatim>\<open>data\<close>.
\<close>

theorem createZip_outside_envelope:
  "fst (handle (CreateZip [''a.txt'', ''b.txt'']) world0) =
     Responded (json 200 [(''success'', JBool True),
                          (''message'', JString ''Zip file created successfully''),
                          (''filename'', JString ''1700000000000.zip'')]) \<and>
   \<not> uniform_envelope
       (json 200 [(''success'', JBool True),
                  (''message'', JString ''Zip file created successfully''),
                  (''filename'', JString ''1700000000000.zip'')])"
  by (simp add: createZip_def world0_def json_def uniform_envelope_def decimal.simps)

end
